theory Spec2Isabelle
  imports Complex_Main
begin

section \<open>Data model\<close>

text \<open>
  The dashboard works on a pandas table of HVAC readings. Energies are float64 numbers
  in the source. A finite float64 is a real number, so energies have type \<open>real\<close>;
  infinities and \<open>NaN\<close> are outside the model. The arithmetic on them is given twice:
  \<open>compute_scenarios\<close> adds and subtracts exactly, and \<open>compute_scenarios_fp\<close> takes
  the rounding applied after every operation as a parameter, with the float64 rounding
  \<open>fl64\<close> as the instance the program runs. A timestamp is the number of nanoseconds
  since the epoch, a date the ordinal of a calendar day; both are integers, so the missing
  value \<open>NaT\<close> is outside the model.
\<close>

datatype error = KeyError string | IntCastingNaNError | ZeroDivisionError

text \<open>
  One row of the table, restricted to the columns that \<open>compute_scenarios\<close> reads from
  every row.
\<close>

record reading =
  timestamp :: int
  date :: int
  energy_5min_real_kWh :: real
  on_off :: int

text \<open>
  A data frame: its rows, under the default index \<open>0, 1, ..., n - 1\<close> that
  \<open>read_csv\<close> produces, and the columns that may or may not exist. \<open>load_data\<close> keeps
  \<open>is_business_hours\<close> only when the file has it; \<open>energy_s1_kWh\<close> and
  \<open>energy_s2_kWh\<close> are the columns the two scenarios add.
\<close>

record frame =
  rows :: "reading list"
  is_business_hours :: "int list option"
  energy_s1_kWh :: "real list option"
  energy_s2_kWh :: "real list option"

text \<open>Every column of a data frame has the length of the frame.\<close>

definition col_ok :: "nat \<Rightarrow> 'a list option \<Rightarrow> bool" where
  "col_ok n c = (case c of None \<Rightarrow> True | Some xs \<Rightarrow> length xs = n)"

definition frame_ok :: "frame \<Rightarrow> bool" where
  "frame_ok f =
     (col_ok (length (rows f)) (is_business_hours f)
      \<and> col_ok (length (rows f)) (energy_s1_kWh f)
      \<and> col_ok (length (rows f)) (energy_s2_kWh f))"

text \<open>
  Data frames are mutable objects. The store maps the address of every object to its
  current value; addresses below \<open>fresh\<close> are in use.
\<close>

type_synonym addr = nat

record store =
  frames :: "addr \<Rightarrow> frame"
  fresh :: addr

text \<open>\<open>df.copy()\<close>: a new object with the same contents.\<close>

definition copy :: "store \<Rightarrow> addr \<Rightarrow> addr \<times> store" where
  "copy h a = (fresh h, h\<lparr>frames := (frames h)(fresh h := frames h a), fresh := Suc (fresh h)\<rparr>)"

text \<open>An assignment into the object at an address.\<close>

definition update :: "addr \<Rightarrow> (frame \<Rightarrow> frame) \<Rightarrow> store \<Rightarrow> store" where
  "update a g h = h\<lparr>frames := (frames h)(a := g (frames h a))\<rparr>"

section \<open>The pandas operations used\<close>

definition index :: "frame \<Rightarrow> nat list" where
  "index f = [0..<length (rows f)]"

text \<open>
  \<open>df.groupby("date").groups\<close>: the distinct dates in ascending order, each with the
  index labels of its rows.
\<close>

definition groupby_date :: "frame \<Rightarrow> (int \<times> nat list) list" where
  "groupby_date f =
     map (\<lambda>d. (d, filter (\<lambda>i. date (rows f ! i) = d) (index f)))
         (sort (remdups (map date (rows f))))"

definition isin :: "nat list \<Rightarrow> nat list \<Rightarrow> bool list" where
  "isin ix idx = map (\<lambda>i. i \<in> set idx) ix"

definition mask_and :: "bool list \<Rightarrow> bool list \<Rightarrow> bool list" where
  "mask_and m1 m2 = map2 (\<and>) m1 m2"

definition any_mask :: "bool list \<Rightarrow> bool" where
  "any_mask m = (True \<in> set m)"

text \<open>\<open>series.loc[mask]\<close> and \<open>series.loc[mask] = v\<close>.\<close>

definition loc :: "bool list \<Rightarrow> 'a list \<Rightarrow> 'a list" where
  "loc m xs = map snd (filter fst (zip m xs))"

definition loc_set :: "bool list \<Rightarrow> 'a \<Rightarrow> 'a list \<Rightarrow> 'a list" where
  "loc_set m v xs = map2 (\<lambda>b x. if b then v else x) m xs"

definition timedelta_hours :: "int \<Rightarrow> int" where
  "timedelta_hours n = n * 3600000000000"

text \<open>\<open>series.mean()\<close>: \<open>None\<close> stands for the \<open>NaN\<close> pandas returns on an empty series.\<close>

definition series_mean :: "real list \<Rightarrow> real option" where
  "series_mean xs = (if xs = [] then None else Some (sum_list xs / real (length xs)))"

section \<open>Scenario 1: switch off one hour before the last on reading of each day\<close>

text \<open>
  The body of the loop over the groups (source lines 79 to 94), as the change it makes to
  the frame \<open>s1\<close>. The assignment through \<open>loc\<close> happens on an existing column: line 76
  creates it before the loop.
\<close>

definition s1_day :: "int \<times> nat list \<Rightarrow> frame \<Rightarrow> frame" where
  "s1_day g s1 =
     (let idx = snd g;
          day_mask = isin (index s1) idx;
          mask_on = mask_and day_mask (map (\<lambda>x. on_off x = 1) (rows s1))
      in if \<not> any_mask mask_on then s1
         else
           let last_time = Max (set (loc mask_on (map timestamp (rows s1))));
               cutoff = last_time - timedelta_hours 1;
               mask_early_off =
                 mask_and (mask_and mask_on (map (\<lambda>x. timestamp x > cutoff) (rows s1)))
                          (map (\<lambda>x. timestamp x \<le> last_time) (rows s1))
           in s1\<lparr>energy_s1_kWh := map_option (loc_set mask_early_off 0) (energy_s1_kWh s1)\<rparr>)"

text \<open>Source lines 75 to 94: the copy \<open>s1\<close>, its new column and the loop.\<close>

definition cenario1 :: "store \<Rightarrow> addr \<Rightarrow> addr \<times> store" where
  "cenario1 h base =
     (let (s1, h1) = copy h base;
          h2 = update s1 (\<lambda>f. f\<lparr>energy_s1_kWh := Some (map energy_5min_real_kWh (rows f))\<rparr>) h1;
          h3 = fold (\<lambda>g. update s1 (s1_day g)) (groupby_date (frames h2 s1)) h2
      in (s1, h3))"

section \<open>Scenario 2: business hours only\<close>

text \<open>
  Source lines 111 to 115. Reading \<open>is_business_hours\<close> from a frame that does not have
  the column raises \<open>KeyError\<close>; the assignment through \<open>loc\<close> happens on the column
  that line 112 has just created.
\<close>

definition cenario2 :: "store \<Rightarrow> addr \<Rightarrow> error + addr \<times> store" where
  "cenario2 h base =
     (let (s2, h1) = copy h base;
          h2 = update s2 (\<lambda>f. f\<lparr>energy_s2_kWh := Some (map energy_5min_real_kWh (rows f))\<rparr>) h1
      in case is_business_hours (frames h2 s2) of
           None \<Rightarrow> Inl (KeyError ''is_business_hours'')
         | Some bh \<Rightarrow>
             let mask_off_hours_all = map (\<lambda>v. v = 0) bh
             in Inr (s2, update s2
                  (\<lambda>f. f\<lparr>energy_s2_kWh := map_option (loc_set mask_off_hours_all 0) (energy_s2_kWh f)\<rparr>)
                  h2))"

section \<open>Aggregation\<close>

text \<open>
  In this section every sum and difference is exact. The section on the computation with
  rounding has the same functions with the float64 operations.
\<close>

text \<open>One row of the daily table of a scenario.\<close>

record daily =
  day :: int
  energy_base_kWh :: real
  energy_scenario_kWh :: real
  economia_kWh :: real

text \<open>
  \<open>groupby("date").agg(...).reset_index()\<close> followed by the savings column: the sums of
  the baseline column and of a scenario column over the rows of each date.
\<close>

definition daily_agg :: "frame \<Rightarrow> real list \<Rightarrow> daily list" where
  "daily_agg f col =
     map (\<lambda>(d, idx).
            let b = sum_list (map (\<lambda>i. energy_5min_real_kWh (rows f ! i)) idx);
                s = sum_list (map (\<lambda>i. col ! i) idx)
            in \<lparr>day = d, energy_base_kWh = b, energy_scenario_kWh = s, economia_kWh = b - s\<rparr>)
         (groupby_date f)"

record scenario_stats =
  total_base_kWh :: real
  s1_total_kWh :: real
  s1_economia_kWh :: real
  s1_economia_media_dia :: "real option"
  s1_daily :: "daily list"
  s2_total_kWh :: real
  s2_economia_kWh :: real
  s2_economia_media_dia :: "real option"
  s2_daily :: "daily list"

definition compute_scenarios :: "store \<Rightarrow> addr \<Rightarrow> error + scenario_stats \<times> store" where
  "compute_scenarios h0 base0 =
     (let (base, h1) = copy h0 base0;
          total_base = sum_list (map energy_5min_real_kWh (rows (frames h1 base)));
          (s1, h2) = cenario1 h1 base
      in case energy_s1_kWh (frames h2 s1) of
           None \<Rightarrow> Inl (KeyError ''energy_s1_kWh'')
         | Some e1 \<Rightarrow>
             let total_s1 = sum_list e1;
                 economia1 = total_base - total_s1;
                 daily_s1 = daily_agg (frames h2 s1) e1;
                 economia1_media_dia = series_mean (map economia_kWh daily_s1)
             in case cenario2 h2 base of
                  Inl e \<Rightarrow> Inl e
                | Inr (s2, h3) \<Rightarrow>
                    (case energy_s2_kWh (frames h3 s2) of
                       None \<Rightarrow> Inl (KeyError ''energy_s2_kWh'')
                     | Some e2 \<Rightarrow>
                         let total_s2 = sum_list e2;
                             economia2 = total_base - total_s2;
                             daily_s2 = daily_agg (frames h3 s2) e2;
                             economia2_media_dia = series_mean (map economia_kWh daily_s2)
                         in Inr (\<lparr>total_base_kWh = total_base,
                                  s1_total_kWh = total_s1,
                                  s1_economia_kWh = economia1,
                                  s1_economia_media_dia = economia1_media_dia,
                                  s1_daily = daily_s1,
                                  s2_total_kWh = total_s2,
                                  s2_economia_kWh = economia2,
                                  s2_economia_media_dia = economia2_media_dia,
                                  s2_daily = daily_s2\<rparr>, h3)))"

section \<open>Percentage savings\<close>

text \<open>Source lines 390 and 421. A division by zero is a fault.\<close>

definition truediv :: "real \<Rightarrow> real \<Rightarrow> error + real" where
  "truediv a b = (if b = 0 then Inl ZeroDivisionError else Inr (a / b))"

definition s1_pct :: "scenario_stats \<Rightarrow> error + real" where
  "s1_pct st =
     (if total_base_kWh st > 0
      then (case truediv (s1_economia_kWh st) (total_base_kWh st) of
              Inl e \<Rightarrow> Inl e | Inr q \<Rightarrow> Inr (q * 100))
      else Inr 0)"

definition s2_pct :: "scenario_stats \<Rightarrow> error + real" where
  "s2_pct st =
     (if total_base_kWh st > 0
      then (case truediv (s2_economia_kWh st) (total_base_kWh st) of
              Inl e \<Rightarrow> Inl e | Inr q \<Rightarrow> Inr (q * 100))
      else Inr 0)"

section \<open>Flag columns in the loader\<close>

text \<open>
  A column of the raw table, by its dtype: integers, booleans, or floats, where \<open>None\<close>
  is \<open>NaN\<close>. The table read from the file is a dictionary from column names to columns.
\<close>

datatype column = IntCol "int list" | BoolCol "bool list" | FloatCol "real option list"

text \<open>
  \<open>series.astype(int)\<close> gives a column of dtype int64. An integer column (int64, or
  uint64 when the file holds values from \<open>2 ^ 63\<close> on) keeps its values, those that do not
  fit wrapping around; booleans become 0 and 1; floats are truncated towards zero, a float
  beyond the int64 range becoming the least int64; a \<open>NaN\<close> makes the conversion fail.
\<close>

definition trunc :: "real \<Rightarrow> int" where
  "trunc x = (if 0 \<le> x then \<lfloor>x\<rfloor> else \<lceil>x\<rceil>)"

definition wrap_int64 :: "int \<Rightarrow> int" where
  "wrap_int64 x = (x + 2 ^ 63) mod 2 ^ 64 - 2 ^ 63"

definition float_to_int64 :: "real \<Rightarrow> int" where
  "float_to_int64 x =
     (let t = trunc x in if - (2 ^ 63) \<le> t \<and> t < 2 ^ 63 then t else - (2 ^ 63))"

fun astype_int :: "column \<Rightarrow> error + column" where
  "astype_int (IntCol xs) = Inr (IntCol (map wrap_int64 xs))"
| "astype_int (BoolCol bs) = Inr (IntCol (map (\<lambda>b. if b then 1 else 0) bs))"
| "astype_int (FloatCol fs) =
     (case those fs of
        None \<Rightarrow> Inl IntCastingNaNError
      | Some xs \<Rightarrow> Inr (IntCol (map float_to_int64 xs)))"

text \<open>One guarded conversion: source lines 49 and 50, and again 51 and 52.\<close>

definition coerce_flag :: "string \<Rightarrow> (string \<rightharpoonup> column) \<Rightarrow> error + (string \<rightharpoonup> column)" where
  "coerce_flag name base =
     (case base name of
        None \<Rightarrow> Inr base
      | Some c \<Rightarrow> (case astype_int c of Inl e \<Rightarrow> Inl e | Inr c' \<Rightarrow> Inr (base(name \<mapsto> c'))))"

text \<open>The last step of \<open>load_data\<close> (source lines 48 to 54).\<close>

definition load_data_flags :: "(string \<rightharpoonup> column) \<Rightarrow> error + (string \<rightharpoonup> column)" where
  "load_data_flags base =
     (case coerce_flag ''is_business_hours'' base of
        Inl e \<Rightarrow> Inl e
      | Inr base1 \<Rightarrow> coerce_flag ''is_weekend'' base1)"

section \<open>Float64 arithmetic\<close>

text \<open>
  Rounding to the nearest float64, ties to even: \<open>binade x\<close> is the exponent \<open>e\<close> with
  \<open>2 ^ e \<le> \<bar>x\<bar> < 2 ^ (e + 1)\<close>, the spacing of the float64 numbers there is
  \<open>2 ^ (e - 52)\<close>, and never less than \<open>2 ^ - 1074\<close>. Overflow to infinity is outside the
  model.
\<close>

definition pow2 :: "int \<Rightarrow> real" where
  "pow2 k = (if 0 \<le> k then 2 ^ nat k else 1 / 2 ^ nat (- k))"

definition round_half_even :: "real \<Rightarrow> int" where
  "round_half_even y =
     (let n = \<lfloor>y\<rfloor>; r = y - of_int n
      in if r < 1 / 2 then n else if 1 / 2 < r then n + 1 else if even n then n else n + 1)"

definition binade :: "real \<Rightarrow> int" where
  "binade x = \<lfloor>log 2 \<bar>x\<bar>\<rfloor>"

definition fl64 :: "real \<Rightarrow> real" where
  "fl64 x =
     (if x = 0 then 0
      else let q = max (binade x - 52) (- 1074)
           in of_int (round_half_even (x / pow2 q)) * pow2 q)"

text \<open>
  The operations, with the rounding as a parameter: \<open>fl64\<close> gives the float64 operations
  of the program, the identity gives exact arithmetic.
\<close>

definition fadd :: "(real \<Rightarrow> real) \<Rightarrow> real \<Rightarrow> real \<Rightarrow> real" where
  "fadd rnd a b = rnd (a + b)"

definition fsub :: "(real \<Rightarrow> real) \<Rightarrow> real \<Rightarrow> real \<Rightarrow> real" where
  "fsub rnd a b = rnd (a - b)"

definition fdiv :: "(real \<Rightarrow> real) \<Rightarrow> real \<Rightarrow> real \<Rightarrow> real" where
  "fdiv rnd a b = rnd (a / b)"

section \<open>Sums as numpy and pandas compute them\<close>

text \<open>
  \<open>Series.sum()\<close> is numpy's \<open>add.reduce\<close>: it starts from 0 and adds the pairwise sum of
  the array. The pairwise sum adds fewer than 8 numbers one after the other; up to 128
  numbers it keeps 8 running sums, adds them as a tree and then adds the remaining numbers
  one after the other; a longer array is split at \<open>half8\<close> of its length.
\<close>

function acc8 :: "(real \<Rightarrow> real) \<Rightarrow> real list \<Rightarrow> real list \<Rightarrow> real list \<times> real list" where
  "acc8 rnd r xs =
     (if length xs < 8 then (r, xs)
      else acc8 rnd (map2 (fadd rnd) r (take 8 xs)) (drop 8 xs))"
  by pat_completeness auto
termination
  by (relation "measure (\<lambda>(rnd, r, xs). length xs)") auto

definition block_sum :: "(real \<Rightarrow> real) \<Rightarrow> real list \<Rightarrow> real" where
  "block_sum rnd xs =
     (case acc8 rnd (take 8 xs) (drop 8 xs) of
        (r, rest) \<Rightarrow>
          foldl (fadd rnd)
            (fadd rnd (fadd rnd (fadd rnd (r ! 0) (r ! 1)) (fadd rnd (r ! 2) (r ! 3)))
                      (fadd rnd (fadd rnd (r ! 4) (r ! 5)) (fadd rnd (r ! 6) (r ! 7))))
            rest)"

definition half8 :: "nat \<Rightarrow> nat" where
  "half8 n = n div 2 - (n div 2) mod 8"

function pairwise_sum :: "(real \<Rightarrow> real) \<Rightarrow> real list \<Rightarrow> real" where
  "pairwise_sum rnd xs =
     (if length xs < 8 then foldl (fadd rnd) 0 xs
      else if length xs \<le> 128 then block_sum rnd xs
      else fadd rnd (pairwise_sum rnd (take (half8 (length xs)) xs))
                    (pairwise_sum rnd (drop (half8 (length xs)) xs)))"
  by pat_completeness auto
termination
proof (relation "measure (\<lambda>(rnd, xs). length xs)")
  show "wf (measure (\<lambda>(rnd, xs). length xs))" by simp
next
  fix rnd :: "real \<Rightarrow> real" and xs :: "real list"
  assume "\<not> length xs < 8" and "\<not> length xs \<le> 128"
  then have "half8 (length xs) < length xs"
    unfolding half8_def by arith
  then show "((rnd, take (half8 (length xs)) xs), (rnd, xs)) \<in> measure (\<lambda>(rnd, xs). length xs)"
    by simp
next
  fix rnd :: "real \<Rightarrow> real" and xs :: "real list"
  assume "\<not> length xs < 8" and "\<not> length xs \<le> 128"
  then have "0 < half8 (length xs)" and "0 < length xs"
    unfolding half8_def by arith+
  then show "((rnd, drop (half8 (length xs)) xs), (rnd, xs)) \<in> measure (\<lambda>(rnd, xs). length xs)"
    by simp
qed

declare acc8.simps [simp del] pairwise_sum.simps [simp del]

definition np_sum :: "(real \<Rightarrow> real) \<Rightarrow> real list \<Rightarrow> real" where
  "np_sum rnd xs = fadd rnd 0 (pairwise_sum rnd xs)"

text \<open>
  The \<open>sum\<close> of a \<open>groupby\<close> is a compensated (Kahan) sum over the rows of the group.
\<close>

definition kahan_step :: "(real \<Rightarrow> real) \<Rightarrow> real \<Rightarrow> real \<times> real \<Rightarrow> real \<times> real" where
  "kahan_step rnd val acc =
     (let sumx = fst acc; compensation = snd acc;
          y = fsub rnd val compensation;
          t = fadd rnd sumx y
      in (t, fsub rnd (fsub rnd t sumx) y))"

definition group_sum :: "(real \<Rightarrow> real) \<Rightarrow> real list \<Rightarrow> real" where
  "group_sum rnd xs = fst (fold (kahan_step rnd) xs (0, 0))"

section \<open>The computation with rounding\<close>

text \<open>
  Lines 96 to 108 and 117 to 129 again, every sum, difference and quotient rounded by
  \<open>rnd\<close>. The two scenario frames are those of \<open>cenario1\<close> and \<open>cenario2\<close>, which copy
  energies or set them to 0 and do no arithmetic.
\<close>

definition series_mean_fp :: "(real \<Rightarrow> real) \<Rightarrow> real list \<Rightarrow> real option" where
  "series_mean_fp rnd xs =
     (if xs = [] then None else Some (fdiv rnd (np_sum rnd xs) (real (length xs))))"

definition daily_agg_fp :: "(real \<Rightarrow> real) \<Rightarrow> frame \<Rightarrow> real list \<Rightarrow> daily list" where
  "daily_agg_fp rnd f col =
     map (\<lambda>(d, idx).
            let b = group_sum rnd (map (\<lambda>i. energy_5min_real_kWh (rows f ! i)) idx);
                s = group_sum rnd (map (\<lambda>i. col ! i) idx)
            in \<lparr>day = d, energy_base_kWh = b, energy_scenario_kWh = s,
                economia_kWh = fsub rnd b s\<rparr>)
         (groupby_date f)"

definition compute_scenarios_fp ::
  "(real \<Rightarrow> real) \<Rightarrow> store \<Rightarrow> addr \<Rightarrow> error + scenario_stats \<times> store" where
  "compute_scenarios_fp rnd h0 base0 =
     (let (base, h1) = copy h0 base0;
          total_base = np_sum rnd (map energy_5min_real_kWh (rows (frames h1 base)));
          (s1, h2) = cenario1 h1 base
      in case energy_s1_kWh (frames h2 s1) of
           None \<Rightarrow> Inl (KeyError ''energy_s1_kWh'')
         | Some e1 \<Rightarrow>
             let total_s1 = np_sum rnd e1;
                 economia1 = fsub rnd total_base total_s1;
                 daily_s1 = daily_agg_fp rnd (frames h2 s1) e1;
                 economia1_media_dia = series_mean_fp rnd (map economia_kWh daily_s1)
             in case cenario2 h2 base of
                  Inl e \<Rightarrow> Inl e
                | Inr (s2, h3) \<Rightarrow>
                    (case energy_s2_kWh (frames h3 s2) of
                       None \<Rightarrow> Inl (KeyError ''energy_s2_kWh'')
                     | Some e2 \<Rightarrow>
                         let total_s2 = np_sum rnd e2;
                             economia2 = fsub rnd total_base total_s2;
                             daily_s2 = daily_agg_fp rnd (frames h3 s2) e2;
                             economia2_media_dia = series_mean_fp rnd (map economia_kWh daily_s2)
                         in Inr (\<lparr>total_base_kWh = total_base,
                                  s1_total_kWh = total_s1,
                                  s1_economia_kWh = economia1,
                                  s1_economia_media_dia = economia1_media_dia,
                                  s1_daily = daily_s1,
                                  s2_total_kWh = total_s2,
                                  s2_economia_kWh = economia2,
                                  s2_economia_media_dia = economia2_media_dia,
                                  s2_daily = daily_s2\<rparr>, h3)))"

section \<open>Auxiliary notions\<close>

text \<open>
  The effect of the loop of Scenario 1, row by row. \<open>zeroed rs idx i\<close> says that the
  iteration for the group with index labels \<open>idx\<close> sets row \<open>i\<close> to zero;
  \<open>off_early rs i\<close> says the same in terms of the date of row \<open>i\<close>.
\<close>

definition zeroed :: "reading list \<Rightarrow> nat list \<Rightarrow> nat \<Rightarrow> bool" where
  "zeroed rs idx i \<longleftrightarrow>
     i \<in> set idx \<and> on_off (rs ! i) = 1 \<and>
     (let last_time = Max ((\<lambda>j. timestamp (rs ! j)) `
                           {j. j < length rs \<and> j \<in> set idx \<and> on_off (rs ! j) = 1})
      in last_time - timedelta_hours 1 < timestamp (rs ! i) \<and> timestamp (rs ! i) \<le> last_time)"

definition day_on :: "reading list \<Rightarrow> int \<Rightarrow> nat set" where
  "day_on rs d = {j. j < length rs \<and> date (rs ! j) = d \<and> on_off (rs ! j) = 1}"

definition off_early :: "reading list \<Rightarrow> nat \<Rightarrow> bool" where
  "off_early rs i \<longleftrightarrow>
     on_off (rs ! i) = 1 \<and>
     (let last_time = Max ((\<lambda>j. timestamp (rs ! j)) ` day_on rs (date (rs ! i)))
      in last_time - timedelta_hours 1 < timestamp (rs ! i) \<and> timestamp (rs ! i) \<le> last_time)"

text \<open>The two scenario columns as functions of the rows.\<close>

definition s1_energy :: "reading list \<Rightarrow> real list" where
  "s1_energy rs =
     map (\<lambda>i. if off_early rs i then 0 else energy_5min_real_kWh (rs ! i)) [0..<length rs]"

definition s2_energy :: "reading list \<Rightarrow> int list \<Rightarrow> real list" where
  "s2_energy rs bh =
     map (\<lambda>i. if bh ! i = 0 then 0 else energy_5min_real_kWh (rs ! i)) [0..<length rs]"

text \<open>The result of \<open>compute_scenarios\<close> and the store it leaves behind.\<close>

definition stats_of :: "frame \<Rightarrow> int list \<Rightarrow> scenario_stats" where
  "stats_of f bh =
     (let rs = rows f; tb = sum_list (map energy_5min_real_kWh rs);
          e1 = s1_energy rs; e2 = s2_energy rs bh
      in \<lparr>total_base_kWh = tb,
          s1_total_kWh = sum_list e1,
          s1_economia_kWh = tb - sum_list e1,
          s1_economia_media_dia = series_mean (map economia_kWh (daily_agg f e1)),
          s1_daily = daily_agg f e1,
          s2_total_kWh = sum_list e2,
          s2_economia_kWh = tb - sum_list e2,
          s2_economia_media_dia = series_mean (map economia_kWh (daily_agg f e2)),
          s2_daily = daily_agg f e2\<rparr>)"

definition final_store :: "store \<Rightarrow> addr \<Rightarrow> int list \<Rightarrow> store" where
  "final_store h a bh =
     h\<lparr>frames := (frames h)
          (fresh h := frames h a,
           Suc (fresh h) := (frames h a)\<lparr>energy_s1_kWh := Some (s1_energy (rows (frames h a)))\<rparr>,
           Suc (Suc (fresh h)) := (frames h a)\<lparr>energy_s2_kWh := Some (s2_energy (rows (frames h a)) bh)\<rparr>),
       fresh := Suc (Suc (Suc (fresh h)))\<rparr>"

definition stats_fp :: "(real \<Rightarrow> real) \<Rightarrow> frame \<Rightarrow> int list \<Rightarrow> scenario_stats" where
  "stats_fp rnd f bh =
     (let rs = rows f; tb = np_sum rnd (map energy_5min_real_kWh rs);
          e1 = s1_energy rs; e2 = s2_energy rs bh
      in \<lparr>total_base_kWh = tb,
          s1_total_kWh = np_sum rnd e1,
          s1_economia_kWh = fsub rnd tb (np_sum rnd e1),
          s1_economia_media_dia = series_mean_fp rnd (map economia_kWh (daily_agg_fp rnd f e1)),
          s1_daily = daily_agg_fp rnd f e1,
          s2_total_kWh = np_sum rnd e2,
          s2_economia_kWh = fsub rnd tb (np_sum rnd e2),
          s2_economia_media_dia = series_mean_fp rnd (map economia_kWh (daily_agg_fp rnd f e2)),
          s2_daily = daily_agg_fp rnd f e2\<rparr>)"

text \<open>
  A raw flag column whose values are already the two truth values, in any of the three
  dtypes, and the integers 0 and 1 they stand for.
\<close>

fun binary_column :: "column \<Rightarrow> bool" where
  "binary_column (IntCol xs) = list_all (\<lambda>x. x = 0 \<or> x = 1) xs"
| "binary_column (BoolCol bs) = True"
| "binary_column (FloatCol fs) = list_all (\<lambda>x. x = Some 0 \<or> x = Some 1) fs"

fun flag_bits :: "column \<Rightarrow> int list" where
  "flag_bits (IntCol xs) = xs"
| "flag_bits (BoolCol bs) = map (\<lambda>b. if b then 1 else 0) bs"
| "flag_bits (FloatCol fs) = map (\<lambda>x. if x = Some 1 then 1 else 0) fs"

definition coerced :: "string \<Rightarrow> (string \<rightharpoonup> column) \<Rightarrow> (string \<rightharpoonup> column)" where
  "coerced name base =
     (case base name of None \<Rightarrow> base | Some c \<Rightarrow> base(name \<mapsto> IntCol (flag_bits c)))"

section \<open>Example tables\<close>

text \<open>
  Three readings on two days: the unit runs at 00:00 and 01:00 of day 0 and is off on
  day 1; the first reading lies outside business hours.
\<close>

definition demo_frame :: frame where
  "demo_frame =
     \<lparr>rows = [\<lparr>timestamp = 0, date = 0, energy_5min_real_kWh = 2, on_off = 1\<rparr>,
              \<lparr>timestamp = 3600000000000, date = 0, energy_5min_real_kWh = 3, on_off = 1\<rparr>,
              \<lparr>timestamp = 86400000000000, date = 1, energy_5min_real_kWh = 5, on_off = 0\<rparr>],
      is_business_hours = Some [0, 1, 1],
      energy_s1_kWh = None,
      energy_s2_kWh = None\<rparr>"

definition demo_store :: store where
  "demo_store = \<lparr>frames = (\<lambda>_. demo_frame), fresh = 1\<rparr>"

definition demo_s1_store :: store where
  "demo_s1_store =
     \<lparr>frames = (\<lambda>_. demo_frame)(1 := demo_frame\<lparr>energy_s1_kWh := Some [2, 0, 5]\<rparr>), fresh = 2\<rparr>"

definition demo_s2_store :: store where
  "demo_s2_store =
     \<lparr>frames = (\<lambda>_. demo_frame)(1 := demo_frame\<lparr>energy_s2_kWh := Some [0, 3, 5]\<rparr>), fresh = 2\<rparr>"

definition demo_stats :: scenario_stats where
  "demo_stats =
     \<lparr>total_base_kWh = 10,
      s1_total_kWh = 7, s1_economia_kWh = 3, s1_economia_media_dia = Some (3 / 2),
      s1_daily = [\<lparr>day = 0, energy_base_kWh = 5, energy_scenario_kWh = 2, economia_kWh = 3\<rparr>,
                  \<lparr>day = 1, energy_base_kWh = 5, energy_scenario_kWh = 5, economia_kWh = 0\<rparr>],
      s2_total_kWh = 8, s2_economia_kWh = 2, s2_economia_media_dia = Some 1,
      s2_daily = [\<lparr>day = 0, energy_base_kWh = 5, energy_scenario_kWh = 3, economia_kWh = 2\<rparr>,
                  \<lparr>day = 1, energy_base_kWh = 5, energy_scenario_kWh = 5, economia_kWh = 0\<rparr>]\<rparr>"

definition demo_final :: store where
  "demo_final =
     \<lparr>frames = (\<lambda>_. demo_frame)
        (1 := demo_frame,
         2 := demo_frame\<lparr>energy_s1_kWh := Some [2, 0, 5]\<rparr>,
         3 := demo_frame\<lparr>energy_s2_kWh := Some [0, 3, 5]\<rparr>),
      fresh = 4\<rparr>"

text \<open>A table without rows, and one whose only reading used no energy.\<close>

definition empty_frame :: frame where
  "empty_frame = \<lparr>rows = [], is_business_hours = Some [], energy_s1_kWh = None, energy_s2_kWh = None\<rparr>"

definition empty_store :: store where
  "empty_store = \<lparr>frames = (\<lambda>_. empty_frame), fresh = 1\<rparr>"

definition empty_stats :: scenario_stats where
  "empty_stats =
     \<lparr>total_base_kWh = 0,
      s1_total_kWh = 0, s1_economia_kWh = 0, s1_economia_media_dia = None, s1_daily = [],
      s2_total_kWh = 0, s2_economia_kWh = 0, s2_economia_media_dia = None, s2_daily = []\<rparr>"

definition zero_frame :: frame where
  "zero_frame =
     \<lparr>rows = [\<lparr>timestamp = 0, date = 0, energy_5min_real_kWh = 0, on_off = 1\<rparr>],
      is_business_hours = Some [1], energy_s1_kWh = None, energy_s2_kWh = None\<rparr>"

definition zero_store :: store where
  "zero_store = \<lparr>frames = (\<lambda>_. zero_frame), fresh = 1\<rparr>"

definition zero_stats :: scenario_stats where
  "zero_stats =
     \<lparr>total_base_kWh = 0,
      s1_total_kWh = 0, s1_economia_kWh = 0, s1_economia_media_dia = Some 0,
      s1_daily = [\<lparr>day = 0, energy_base_kWh = 0, energy_scenario_kWh = 0, economia_kWh = 0\<rparr>],
      s2_total_kWh = 0, s2_economia_kWh = 0, s2_economia_media_dia = Some 0,
      s2_daily = [\<lparr>day = 0, energy_base_kWh = 0, energy_scenario_kWh = 0, economia_kWh = 0\<rparr>]\<rparr>"

definition zero_final :: store where
  "zero_final =
     \<lparr>frames = (\<lambda>_. zero_frame)
        (1 := zero_frame,
         2 := zero_frame\<lparr>energy_s1_kWh := Some [0]\<rparr>,
         3 := zero_frame\<lparr>energy_s2_kWh := Some [0]\<rparr>),
      fresh = 4\<rparr>"

text \<open>
  The day of the boundary example: the unit is on from 09:00 to 17:00, one reading every
  five minutes (97 readings), 1 kWh each.
\<close>

definition boundary_day :: "reading list" where
  "boundary_day =
     map (\<lambda>k. \<lparr>timestamp = 32400000000000 + int k * 300000000000, date = 0,
               energy_5min_real_kWh = 1, on_off = 1\<rparr>) [0..<97]"

definition boundary_frame :: frame where
  "boundary_frame =
     \<lparr>rows = boundary_day, is_business_hours = Some (replicate 97 1),
      energy_s1_kWh = None, energy_s2_kWh = None\<rparr>"

definition boundary_store :: store where
  "boundary_store = \<lparr>frames = (\<lambda>_. boundary_frame), fresh = 1\<rparr>"

text \<open>
  Two readings on two days, 0.2 kWh while the unit is on and outside business hours, and
  0.701 kWh while it is off: the energies are the float64 numbers nearest to 0.2 and
  0.701, and \<open>fp_stats\<close> is what the float64 computation returns for them.
\<close>

definition fp_frame :: frame where
  "fp_frame =
     \<lparr>rows = [\<lparr>timestamp = 0, date = 0,
               energy_5min_real_kWh = 3602879701896397 / 18014398509481984, on_off = 1\<rparr>,
              \<lparr>timestamp = 86400000000000, date = 1,
               energy_5min_real_kWh = 6314046677573435 / 9007199254740992, on_off = 0\<rparr>],
      is_business_hours = Some [0, 1],
      energy_s1_kWh = None,
      energy_s2_kWh = None\<rparr>"

definition fp_store :: store where
  "fp_store = \<lparr>frames = (\<lambda>_. fp_frame), fresh = 1\<rparr>"

definition fp_stats :: scenario_stats where
  "fp_stats =
     \<lparr>total_base_kWh = 4057743264260817 / 4503599627370496,
      s1_total_kWh = 6314046677573435 / 9007199254740992,
      s1_economia_kWh = 1801439850948199 / 9007199254740992,
      s1_economia_media_dia = Some (3602879701896397 / 36028797018963968),
      s1_daily = [\<lparr>day = 0, energy_base_kWh = 3602879701896397 / 18014398509481984,
                    energy_scenario_kWh = 0,
                    economia_kWh = 3602879701896397 / 18014398509481984\<rparr>,
                  \<lparr>day = 1, energy_base_kWh = 6314046677573435 / 9007199254740992,
                    energy_scenario_kWh = 6314046677573435 / 9007199254740992,
                    economia_kWh = 0\<rparr>],
      s2_total_kWh = 6314046677573435 / 9007199254740992,
      s2_economia_kWh = 1801439850948199 / 9007199254740992,
      s2_economia_media_dia = Some (3602879701896397 / 36028797018963968),
      s2_daily = [\<lparr>day = 0, energy_base_kWh = 3602879701896397 / 18014398509481984,
                    energy_scenario_kWh = 0,
                    economia_kWh = 3602879701896397 / 18014398509481984\<rparr>,
                  \<lparr>day = 1, energy_base_kWh = 6314046677573435 / 9007199254740992,
                    energy_scenario_kWh = 6314046677573435 / 9007199254740992,
                    economia_kWh = 0\<rparr>]\<rparr>"

text \<open>
  Three readings on one day, \<open>2 ^ - 53\<close>, \<open>1 + 2 ^ - 52\<close> and \<open>2 + 2 ^ - 51\<close> kWh, the unit
  off, the first reading outside business hours.
\<close>

definition kahan_frame :: frame where
  "kahan_frame =
     \<lparr>rows = [\<lparr>timestamp = 0, date = 0,
               energy_5min_real_kWh = 1 / 9007199254740992, on_off = 0\<rparr>,
              \<lparr>timestamp = 300000000000, date = 0,
               energy_5min_real_kWh = 4503599627370497 / 4503599627370496, on_off = 0\<rparr>,
              \<lparr>timestamp = 600000000000, date = 0,
               energy_5min_real_kWh = 4503599627370497 / 2251799813685248, on_off = 0\<rparr>],
      is_business_hours = Some [0, 1, 1],
      energy_s1_kWh = None,
      energy_s2_kWh = None\<rparr>"

definition kahan_store :: store where
  "kahan_store = \<lparr>frames = (\<lambda>_. kahan_frame), fresh = 1\<rparr>"

definition kahan_stats :: scenario_stats where
  "kahan_stats =
     \<lparr>total_base_kWh = 3377699720527873 / 1125899906842624,
      s1_total_kWh = 3377699720527873 / 1125899906842624,
      s1_economia_kWh = 0,
      s1_economia_media_dia = Some 0,
      s1_daily = [\<lparr>day = 0, energy_base_kWh = 6755399441055745 / 2251799813685248,
                    energy_scenario_kWh = 6755399441055745 / 2251799813685248,
                    economia_kWh = 0\<rparr>],
      s2_total_kWh = 3377699720527873 / 1125899906842624,
      s2_economia_kWh = 0,
      s2_economia_media_dia = Some (- (1 / 2251799813685248)),
      s2_daily = [\<lparr>day = 0, energy_base_kWh = 6755399441055745 / 2251799813685248,
                    energy_scenario_kWh = 3377699720527873 / 1125899906842624,
                    economia_kWh = - (1 / 2251799813685248)\<rparr>]\<rparr>"

section \<open>Columns as functions of the index\<close>

lemma map_as_upt: "map f xs = map (\<lambda>i. f (xs ! i)) [0..<length xs]"
  by (simp add: map_equality_iff)

lemma isin_upt: "isin (index f) idx = map (\<lambda>i. i \<in> set idx) [0..<length (rows f)]"
  by (simp add: isin_def index_def)

lemma mask_and_upt:
  "mask_and (map p [0..<n]) (map q [0..<n]) = map (\<lambda>i. p i \<and> q i) [0..<n]"
  by (simp add: mask_and_def map_equality_iff)

lemma any_mask_upt: "any_mask (map p [0..<n]) \<longleftrightarrow> (\<exists>i<n. p i)"
  by (auto simp: any_mask_def)

lemma loc_map: "loc (map p xs) (map g xs) = map g (filter p xs)"
  by (induction xs) (simp_all add: loc_def)

lemma set_loc_upt: "set (loc (map p [0..<n]) (map g [0..<n])) = g ` {i. i < n \<and> p i}"
  by (auto simp: loc_map)

lemma loc_set_upt:
  "length col = n \<Longrightarrow>
   loc_set (map p [0..<n]) v col = map (\<lambda>i. if p i then v else col ! i) [0..<n]"
  by (simp add: loc_set_def map_equality_iff)

lemma sum_list_nth_map: "(\<Sum>i\<leftarrow>[0..<length xs]. f (xs ! i)) = sum_list (map f xs)"
  by (simp add: map_as_upt [of f xs])

section \<open>The store\<close>

lemma update_update: "update a g (update a f h) = update a (g \<circ> f) h"
  by (simp add: update_def)

lemma fold_update: "fold (\<lambda>g. update a (F g)) gs h = update a (fold F gs) h"
proof (induction gs arbitrary: h)
  case Nil
  show ?case by (simp add: update_def)
next
  case (Cons g gs)
  show ?case by (simp add: Cons.IH update_update o_def)
qed

section \<open>The loop of Scenario 1\<close>

lemma s1_day_col:
  assumes c: "energy_s1_kWh f = Some col" and l: "length col = length (rows f)"
  shows "s1_day g f =
         f\<lparr>energy_s1_kWh := Some (map (\<lambda>i. if zeroed (rows f) (snd g) i then 0 else col ! i)
                                      [0..<length (rows f)])\<rparr>"
proof -
  let ?n = "length (rows f)" and ?rs = "rows f" and ?idx = "snd g"
  let ?on = "\<lambda>i. i \<in> set ?idx \<and> on_off (?rs ! i) = 1"
  have m_on: "mask_and (isin (index f) ?idx) (map (\<lambda>x. on_off x = 1) ?rs) = map ?on [0..<?n]"
    by (simp add: isin_upt map_as_upt [of _ "rows f"] mask_and_upt)
  show ?thesis
  proof (cases "\<exists>i<?n. ?on i")
    case False
    then have z: "\<And>i. i < ?n \<Longrightarrow> \<not> zeroed ?rs ?idx i"
      by (auto simp: zeroed_def)
    have "map (\<lambda>i. if zeroed ?rs ?idx i then 0 else col ! i) [0..<?n] = col"
      by (rule nth_equalityI) (simp_all add: z l)
    moreover have "s1_day g f = f"
      using False by (simp add: s1_day_def Let_def m_on any_mask_upt)
    ultimately show ?thesis using c by simp
  next
    case True
    let ?last = "Max ((\<lambda>j. timestamp (?rs ! j)) ` {j. j < ?n \<and> ?on j})"
    have last: "Max (set (loc (map ?on [0..<?n]) (map timestamp ?rs))) = ?last"
      by (simp add: map_as_upt [of timestamp "rows f"] set_loc_upt)
    have m_off:
      "mask_and (mask_and (map ?on [0..<?n]) (map (\<lambda>x. timestamp x > c0) ?rs))
                (map (\<lambda>x. timestamp x \<le> l0) ?rs)
       = map (\<lambda>i. ?on i \<and> timestamp (?rs ! i) > c0 \<and> timestamp (?rs ! i) \<le> l0) [0..<?n]"
      for c0 l0
      by (simp add: map_as_upt [of _ "rows f"] mask_and_upt conj_assoc)
    have "s1_day g f =
          f\<lparr>energy_s1_kWh :=
              Some (map (\<lambda>i. if ?on i \<and> timestamp (?rs ! i) > ?last - timedelta_hours 1
                                    \<and> timestamp (?rs ! i) \<le> ?last then 0 else col ! i) [0..<?n])\<rparr>"
      using True c l by (simp add: s1_day_def Let_def m_on any_mask_upt last m_off loc_set_upt)
    moreover have "(?on i \<and> timestamp (?rs ! i) > ?last - timedelta_hours 1
                     \<and> timestamp (?rs ! i) \<le> ?last) = zeroed ?rs ?idx i" for i
      by (simp add: zeroed_def Let_def conj_assoc)
    ultimately show ?thesis by simp
  qed
qed

lemma fold_s1_day:
  assumes "energy_s1_kWh f = Some col" and "length col = length (rows f)"
  shows "fold s1_day gs f =
         f\<lparr>energy_s1_kWh :=
             Some (map (\<lambda>i. if \<exists>g\<in>set gs. zeroed (rows f) (snd g) i then 0 else col ! i)
                       [0..<length (rows f)])\<rparr>"
  using assms
proof (induction gs arbitrary: f col)
  case Nil
  have "map (\<lambda>i. col ! i) [0..<length (rows f)] = col"
    by (rule nth_equalityI) (simp_all add: Nil)
  then show ?case using Nil by simp
next
  case (Cons g gs)
  let ?n = "length (rows f)"
  let ?col1 = "map (\<lambda>i. if zeroed (rows f) (snd g) i then 0 else col ! i) [0..<?n]"
  let ?f1 = "f\<lparr>energy_s1_kWh := Some ?col1\<rparr>"
  have step: "s1_day g f = ?f1"
    by (rule s1_day_col) (rule Cons.prems)+
  have "fold s1_day gs ?f1 =
        ?f1\<lparr>energy_s1_kWh :=
              Some (map (\<lambda>i. if \<exists>g\<in>set gs. zeroed (rows ?f1) (snd g) i then 0 else ?col1 ! i)
                        [0..<length (rows ?f1)])\<rparr>"
    by (rule Cons.IH) simp_all
  moreover
  have "map (\<lambda>i. if \<exists>g\<in>set gs. zeroed (rows f) (snd g) i then 0 else ?col1 ! i) [0..<?n]
        = map (\<lambda>i. if \<exists>g\<in>set (g # gs). zeroed (rows f) (snd g) i then 0 else col ! i) [0..<?n]"
    by (rule nth_equalityI) simp_all
  ultimately show ?case by (simp add: step)
qed

lemma groupby_date_rows: "rows f' = rows f \<Longrightarrow> groupby_date f' = groupby_date f"
  by (simp add: groupby_date_def index_def)

lemma groupby_date_empty: "rows f = [] \<Longrightarrow> groupby_date f = []"
  by (simp add: groupby_date_def)

lemma groupby_date_zeroed:
  assumes "i < length (rows f)"
  shows "(\<exists>g\<in>set (groupby_date f). zeroed (rows f) (snd g) i) \<longleftrightarrow> off_early (rows f) i"
proof -
  let ?rs = "rows f" and ?n = "length (rows f)"
  have idx: "{j. j < ?n \<and> j \<in> set (filter (\<lambda>i. date (?rs ! i) = d) (index f)) \<and> on_off (?rs ! j) = 1}
             = day_on ?rs d" for d
    by (auto simp: index_def day_on_def)
  have z: "zeroed ?rs (filter (\<lambda>i. date (?rs ! i) = d) (index f)) i
           \<longleftrightarrow> date (?rs ! i) = d \<and> off_early ?rs i" for d
    unfolding zeroed_def off_early_def idx using assms by (auto simp: index_def)
  have "date (?rs ! i) \<in> set (map date ?rs)"
    using assms by simp
  then show ?thesis
    by (auto simp: groupby_date_def z)
qed

lemma cenario1_eq:
  "cenario1 h a =
     (fresh h,
      h\<lparr>frames := (frames h)
           (fresh h := (frames h a)\<lparr>energy_s1_kWh := Some (s1_energy (rows (frames h a)))\<rparr>),
        fresh := Suc (fresh h)\<rparr>)"
proof -
  let ?f = "frames h a" and ?n = "length (rows (frames h a))"
  let ?e = "map energy_5min_real_kWh (rows ?f)"
  let ?fe = "?f\<lparr>energy_s1_kWh := Some ?e\<rparr>"
  have g: "groupby_date ?fe = groupby_date ?f"
    by (rule groupby_date_rows) simp
  have "map (\<lambda>i. if \<exists>g\<in>set (groupby_date ?f). zeroed (rows ?f) (snd g) i then 0 else ?e ! i) [0..<?n]
        = s1_energy (rows ?f)"
    unfolding s1_energy_def
    by (rule nth_equalityI) (simp_all add: groupby_date_zeroed)
  with fold_s1_day [of ?fe ?e "groupby_date ?fe"]
  have "fold s1_day (groupby_date ?fe) ?fe = ?f\<lparr>energy_s1_kWh := Some (s1_energy (rows ?f))\<rparr>"
    by (simp add: g)
  then show ?thesis
    by (simp add: cenario1_def copy_def Let_def fold_update update_def)
qed

lemma s1_energy_nth:
  "i < length rs \<Longrightarrow>
   s1_energy rs ! i = (if off_early rs i then 0 else energy_5min_real_kWh (rs ! i))"
  by (simp add: s1_energy_def)

lemma length_s1_energy: "length (s1_energy rs) = length rs"
  by (simp add: s1_energy_def)

lemma day_on_image:
  "(\<lambda>j. timestamp (rs ! j)) ` day_on rs d
   = set (map timestamp (filter (\<lambda>x. date x = d \<and> on_off x = 1) rs))"
  by (auto simp: day_on_def in_set_conv_nth image_iff)

lemma off_early_no_on:
  "i < length rs \<Longrightarrow> filter (\<lambda>x. date x = date (rs ! i) \<and> on_off x = 1) rs = []
   \<Longrightarrow> \<not> off_early rs i"
  by (auto simp: off_early_def filter_empty_conv)

lemma s1_energy_no_on:
  assumes "\<forall>x\<in>set rs. date x = d \<longrightarrow> on_off x \<noteq> 1" and "i < length rs" and "date (rs ! i) = d"
  shows "s1_energy rs ! i = energy_5min_real_kWh (rs ! i)"
  using assms by (auto simp: s1_energy_nth off_early_def)

section \<open>Scenario 2 and the whole computation\<close>

lemma s2_energy_nth:
  "i < length rs \<Longrightarrow>
   s2_energy rs bh ! i = (if bh ! i = 0 then 0 else energy_5min_real_kWh (rs ! i))"
  by (simp add: s2_energy_def)

lemma length_s2_energy: "length (s2_energy rs bh) = length rs"
  by (simp add: s2_energy_def)

lemma cenario2_eq:
  assumes "is_business_hours (frames h a) = Some bh" and "length bh = length (rows (frames h a))"
  shows "cenario2 h a =
     Inr (fresh h,
      h\<lparr>frames := (frames h)
           (fresh h := (frames h a)\<lparr>energy_s2_kWh := Some (s2_energy (rows (frames h a)) bh)\<rparr>),
        fresh := Suc (fresh h)\<rparr>)"
proof -
  have "loc_set (map (\<lambda>v. v = 0) bh) 0 (map energy_5min_real_kWh (rows (frames h a)))
        = s2_energy (rows (frames h a)) bh"
    unfolding s2_energy_def
    by (rule nth_equalityI) (simp_all add: loc_set_def assms(2))
  then show ?thesis
    using assms(1) by (simp add: cenario2_def copy_def Let_def update_def)
qed

lemma cenario2_KeyError:
  "is_business_hours (frames h a) = None \<Longrightarrow> cenario2 h a = Inl (KeyError ''is_business_hours'')"
  by (simp add: cenario2_def copy_def Let_def update_def)

lemma cenario2_store:
  assumes "cenario2 h a = Inr (s2, h2)"
  shows "s2 = fresh h \<and> fresh h2 = Suc (fresh h) \<and> (\<forall>b. b \<noteq> fresh h \<longrightarrow> frames h2 b = frames h b)"
  using assms by (auto simp: cenario2_def copy_def update_def Let_def split: option.splits)

lemma daily_agg_rows: "rows f' = rows f \<Longrightarrow> daily_agg f' col = daily_agg f col"
  by (simp add: daily_agg_def groupby_date_rows [of f' f])

lemma compute_scenarios_eq:
  assumes "is_business_hours (frames h a) = Some bh" and "length bh = length (rows (frames h a))"
  shows "compute_scenarios h a = Inr (stats_of (frames h a) bh, final_store h a bh)"
proof -
  let ?f = "frames h a"
  define h1 where "h1 = h\<lparr>frames := (frames h)(fresh h := ?f), fresh := Suc (fresh h)\<rparr>"
  define h2 where "h2 = h1\<lparr>frames := (frames h1)(Suc (fresh h) :=
                          ?f\<lparr>energy_s1_kWh := Some (s1_energy (rows ?f))\<rparr>),
                        fresh := Suc (Suc (fresh h))\<rparr>"
  have b: "copy h a = (fresh h, h1)" by (simp add: copy_def h1_def)
  have f1: "frames h1 (fresh h) = ?f" by (simp add: h1_def)
  have c1: "cenario1 h1 (fresh h) = (Suc (fresh h), h2)"
    by (simp add: cenario1_eq h2_def) (simp add: h1_def)
  have f2: "frames h2 (Suc (fresh h)) = ?f\<lparr>energy_s1_kWh := Some (s1_energy (rows ?f))\<rparr>"
    by (simp add: h2_def)
  have f2b: "frames h2 (fresh h) = ?f"
    by (simp add: h2_def h1_def)
  have fr2: "fresh h2 = Suc (Suc (fresh h))"
    by (simp add: h2_def)
  have "h2\<lparr>frames := (frames h2)(Suc (Suc (fresh h)) :=
              ?f\<lparr>energy_s2_kWh := Some (s2_energy (rows ?f) bh)\<rparr>),
           fresh := Suc (Suc (Suc (fresh h)))\<rparr> = final_store h a bh"
    by (simp add: h2_def h1_def final_store_def)
  then have c2: "cenario2 h2 (fresh h) = Inr (Suc (Suc (fresh h)), final_store h a bh)"
    using assms by (simp add: cenario2_eq f2b fr2)
  have f3: "frames (final_store h a bh) (Suc (Suc (fresh h)))
            = ?f\<lparr>energy_s2_kWh := Some (s2_energy (rows ?f) bh)\<rparr>"
    by (simp add: final_store_def)
  have d1: "daily_agg (?f\<lparr>energy_s1_kWh := Some (s1_energy (rows ?f))\<rparr>) col = daily_agg ?f col"
    for col
    by (rule daily_agg_rows) simp
  have d2: "daily_agg (?f\<lparr>energy_s2_kWh := Some (s2_energy (rows ?f) bh)\<rparr>) col = daily_agg ?f col"
    for col
    by (rule daily_agg_rows) simp
  show ?thesis
    unfolding compute_scenarios_def b
    by (simp add: Let_def f1 c1 f2 c2 f3 d1 d2 stats_of_def)
qed

lemma compute_scenarios_KeyError:
  assumes "is_business_hours (frames h a) = None"
  shows "compute_scenarios h a = Inl (KeyError ''is_business_hours'')"
proof -
  let ?f = "frames h a"
  define h1 where "h1 = h\<lparr>frames := (frames h)(fresh h := ?f), fresh := Suc (fresh h)\<rparr>"
  define h2 where "h2 = h1\<lparr>frames := (frames h1)(Suc (fresh h) :=
                          ?f\<lparr>energy_s1_kWh := Some (s1_energy (rows ?f))\<rparr>),
                        fresh := Suc (Suc (fresh h))\<rparr>"
  have b: "copy h a = (fresh h, h1)" by (simp add: copy_def h1_def)
  have c1: "cenario1 h1 (fresh h) = (Suc (fresh h), h2)"
    by (simp add: cenario1_eq h2_def) (simp add: h1_def)
  have f2: "energy_s1_kWh (frames h2 (Suc (fresh h))) = Some (s1_energy (rows ?f))"
    by (simp add: h2_def)
  have "is_business_hours (frames h2 (fresh h)) = None"
    using assms by (simp add: h2_def h1_def)
  then have c2: "cenario2 h2 (fresh h) = Inl (KeyError ''is_business_hours'')"
    by (rule cenario2_KeyError)
  show ?thesis
    unfolding compute_scenarios_def b
    by (simp add: Let_def c1 f2 c2)
qed

lemma compute_scenarios_Inr:
  assumes "compute_scenarios h a = Inr (r, h')" and "frame_ok (frames h a)"
  obtains bh where "is_business_hours (frames h a) = Some bh"
    and "length bh = length (rows (frames h a))"
    and "r = stats_of (frames h a) bh" and "h' = final_store h a bh"
proof (cases "is_business_hours (frames h a)")
  case None
  with assms(1) show ?thesis by (simp add: compute_scenarios_KeyError)
next
  case (Some bh)
  with assms(2) have l: "length bh = length (rows (frames h a))"
    by (simp add: frame_ok_def col_ok_def)
  from assms(1) compute_scenarios_eq [OF Some l] that [OF Some l] show ?thesis
    by simp
qed

lemma compute_scenarios_store:
  assumes "compute_scenarios h a = Inr (r, h')"
  shows "\<forall>b<fresh h. frames h' b = frames h b"
proof -
  let ?f = "frames h a"
  define h1 where "h1 = h\<lparr>frames := (frames h)(fresh h := ?f), fresh := Suc (fresh h)\<rparr>"
  define h2 where "h2 = h1\<lparr>frames := (frames h1)(Suc (fresh h) :=
                          ?f\<lparr>energy_s1_kWh := Some (s1_energy (rows ?f))\<rparr>),
                        fresh := Suc (Suc (fresh h))\<rparr>"
  have b: "copy h a = (fresh h, h1)" by (simp add: copy_def h1_def)
  have c1: "cenario1 h1 (fresh h) = (Suc (fresh h), h2)"
    by (simp add: cenario1_eq h2_def) (simp add: h1_def)
  from assms obtain s2 where "cenario2 h2 (fresh h) = Inr (s2, h')"
    unfolding compute_scenarios_def b
    by (auto simp: Let_def c1 split: option.splits sum.splits)
  from cenario2_store [OF this]
  have "\<forall>b. b \<noteq> fresh h2 \<longrightarrow> frames h' b = frames h2 b" by simp
  then show ?thesis
    by (simp add: h2_def h1_def)
qed

lemma stats_of_total_base:
  "total_base_kWh (stats_of f bh) = sum_list (map energy_5min_real_kWh (rows f))"
  by (simp add: stats_of_def Let_def)

section \<open>Sums over the groups\<close>

lemma sum_list_zero:
  fixes g :: "'a \<Rightarrow> real"
  shows "\<forall>x\<in>set xs. g x = 0 \<Longrightarrow> sum_list (map g xs) = 0"
  by (induction xs) simp_all



lemma daily_agg_day: "map day (daily_agg f col) = sort (remdups (map date (rows f)))"
  by (simp add: daily_agg_def groupby_date_def Let_def o_def case_prod_unfold)



lemma daily_agg_set:
  "set (daily_agg f col) =
     (\<lambda>d. let b = (\<Sum>i\<leftarrow>filter (\<lambda>i. date (rows f ! i) = d) [0..<length (rows f)].
                      energy_5min_real_kWh (rows f ! i));
               s = (\<Sum>i\<leftarrow>filter (\<lambda>i. date (rows f ! i) = d) [0..<length (rows f)]. col ! i)
           in \<lparr>day = d, energy_base_kWh = b, energy_scenario_kWh = s, economia_kWh = b - s\<rparr>)
     ` set (map date (rows f))"
  by (simp add: daily_agg_def groupby_date_def Let_def index_def image_image)

lemma daily_agg_nonneg:
  assumes "\<And>i. i < length (rows f) \<Longrightarrow> col ! i \<le> energy_5min_real_kWh (rows f ! i)"
    and "d \<in> set (daily_agg f col)"
  shows "0 \<le> economia_kWh d"
proof -
  from assms(2) obtain k where
    d: "economia_kWh d = (\<Sum>i\<leftarrow>filter (\<lambda>i. date (rows f ! i) = k) [0..<length (rows f)].
                            energy_5min_real_kWh (rows f ! i) - col ! i)"
    by (auto simp: daily_agg_set Let_def sum_list_subtractf)
  show ?thesis
    unfolding d by (rule sum_list_nonneg) (auto simp: assms(1))
qed

lemma sum_list_s2_total:
  assumes "length bh = length rs" and "\<forall>v\<in>set bh. v = 0 \<or> v = 1"
  shows "sum_list (s2_energy rs bh)
         = (\<Sum>i\<leftarrow>filter (\<lambda>i. bh ! i = 1) [0..<length rs]. energy_5min_real_kWh (rs ! i))"
proof -
  have "bh ! i = 0 \<or> bh ! i = 1" if "i < length rs" for i
    using assms that by (metis nth_mem)
  then have "s2_energy rs bh
             = map (\<lambda>i. if bh ! i = 1 then energy_5min_real_kWh (rs ! i) else 0) [0..<length rs]"
    unfolding s2_energy_def by (intro map_cong) auto
  then show ?thesis
    by (simp add: sum_list_map_filter')
qed

lemma sum_list_s2_saved:
  "(\<Sum>x\<leftarrow>rs. energy_5min_real_kWh x) - sum_list (s2_energy rs bh)
   = (\<Sum>i\<leftarrow>filter (\<lambda>i. bh ! i = 0) [0..<length rs]. energy_5min_real_kWh (rs ! i))"
proof -
  have "(\<Sum>x\<leftarrow>rs. energy_5min_real_kWh x) - sum_list (s2_energy rs bh)
        = (\<Sum>i\<leftarrow>[0..<length rs]. energy_5min_real_kWh (rs ! i) - s2_energy rs bh ! i)"
    using sum_list_nth_map [of "\<lambda>x. x" "s2_energy rs bh"]
    by (simp add: sum_list_subtractf sum_list_nth_map length_s2_energy)
  also have "\<dots> = (\<Sum>i\<leftarrow>[0..<length rs]. if bh ! i = 0 then energy_5min_real_kWh (rs ! i) else 0)"
    by (intro arg_cong [where f = sum_list] map_cong) (simp_all add: s2_energy_nth)
  finally show ?thesis
    by (simp add: sum_list_map_filter')
qed

section \<open>The loader\<close>

lemma those_binary:
  "list_all (\<lambda>x. x = Some 0 \<or> x = Some (1::real)) fs \<Longrightarrow>
   \<exists>xs. those fs = Some xs \<and>
        map float_to_int64 xs = map (\<lambda>x. if x = Some 1 then 1 else 0) fs"
  by (induction fs) (auto simp: trunc_def float_to_int64_def)

lemma wrap_int64_binary: "list_all (\<lambda>x. x = 0 \<or> x = 1) xs \<Longrightarrow> map wrap_int64 xs = xs"
  by (induction xs) (auto simp: wrap_int64_def)

lemma astype_int_binary:
  "binary_column c \<Longrightarrow> astype_int c = Inr (IntCol (flag_bits c))"
  by (cases c) (auto dest: those_binary simp: wrap_int64_binary)

lemma flag_bits_binary:
  "binary_column c \<Longrightarrow> list_all (\<lambda>y. y = 0 \<or> y = 1) (flag_bits c)"
  by (cases c) (auto simp: list_all_iff)

lemma coerce_flag_binary:
  assumes "\<forall>c. base name = Some c \<longrightarrow> binary_column c"
  shows "coerce_flag name base = Inr (coerced name base)"
  using assms by (auto simp: coerce_flag_def coerced_def astype_int_binary split: option.splits)

lemma flag_coercion_binary:
  assumes "\<forall>c. base ''is_business_hours'' = Some c \<longrightarrow> binary_column c"
    and "\<forall>c. base ''is_weekend'' = Some c \<longrightarrow> binary_column c"
  shows "\<exists>base'. load_data_flags base = Inr base' \<and>
           (\<forall>name. name \<noteq> ''is_business_hours'' \<and> name \<noteq> ''is_weekend''
                    \<longrightarrow> base' name = base name) \<and>
           (\<forall>name. name = ''is_business_hours'' \<or> name = ''is_weekend'' \<longrightarrow>
              (case base name of
                 None \<Rightarrow> base' name = None
               | Some c \<Rightarrow> base' name = Some (IntCol (flag_bits c)) \<and>
                           list_all (\<lambda>y. y = 0 \<or> y = 1) (flag_bits c)))"
proof -
  let ?b1 = "coerced ''is_business_hours'' base"
  have 1: "coerce_flag ''is_business_hours'' base = Inr ?b1"
    by (rule coerce_flag_binary) (rule assms(1))
  have w: "?b1 ''is_weekend'' = base ''is_weekend''"
    by (simp add: coerced_def split: option.splits)
  have 2: "coerce_flag ''is_weekend'' ?b1 = Inr (coerced ''is_weekend'' ?b1)"
    by (rule coerce_flag_binary) (simp add: w assms(2))
  have 3: "load_data_flags base = Inr (coerced ''is_weekend'' ?b1)"
    by (simp add: load_data_flags_def 1 2)
  have 4: "coerced ''is_weekend'' ?b1 name = base name"
    if "name \<noteq> ''is_business_hours'' \<and> name \<noteq> ''is_weekend''" for name
    using that by (simp add: coerced_def split: option.splits)
  have 5: "case base name of
             None \<Rightarrow> coerced ''is_weekend'' ?b1 name = None
           | Some c \<Rightarrow> coerced ''is_weekend'' ?b1 name = Some (IntCol (flag_bits c)) \<and>
                       list_all (\<lambda>y. y = 0 \<or> y = 1) (flag_bits c)"
    if "name = ''is_business_hours'' \<or> name = ''is_weekend''" for name
    using that assms by (auto simp: coerced_def flag_bits_binary split: option.splits)
  from 3 4 5 show ?thesis by blast
qed

section \<open>Rounding\<close>

lemma pow2_powr: "pow2 k = 2 powr (of_int k)"
proof (cases "0 \<le> k")
  case True
  then show ?thesis
    by (simp add: pow2_def powr_realpow [symmetric])
next
  case False
  have "(2::real) powr (of_int k) = 1 / 2 powr (- of_int k)"
    using powr_minus_divide [of "2::real" "- of_int k"] by simp
  also have "(2::real) powr (- of_int k) = 2 ^ nat (- k)"
    using False by (simp add: powr_realpow [symmetric])
  finally show ?thesis using False by (simp add: pow2_def)
qed

lemma binade_eqI:
  assumes "pow2 e \<le> \<bar>x\<bar>" and "\<bar>x\<bar> < pow2 (e + 1)"
  shows "binade x = e"
proof -
  have pos: "0 < \<bar>x\<bar>"
    using assms(1) by (smt (verit) pow2_powr powr_gt_zero)
  have "of_int e \<le> log 2 \<bar>x\<bar>"
    using assms(1) pos by (simp add: le_log_iff pow2_powr)
  moreover have "log 2 \<bar>x\<bar> < of_int e + 1"
    using assms(2) pos by (simp add: log_less_iff pow2_powr)
  ultimately show ?thesis
    unfolding binade_def by (simp add: floor_unique)
qed

lemma fl64_eval:
  assumes "pow2 e \<le> \<bar>x\<bar>" and "\<bar>x\<bar> < pow2 (e + 1)"
  shows "fl64 x = of_int (round_half_even (x / pow2 (max (e - 52) (- 1074))))
                  * pow2 (max (e - 52) (- 1074))"
proof -
  have "x \<noteq> 0"
    using assms(1) by (smt (verit) pow2_powr powr_gt_zero)
  then show ?thesis
    by (simp add: fl64_def Let_def binade_eqI [OF assms])
qed

section \<open>Exact arithmetic as an instance\<close>

lemma foldl_fadd_exact: "foldl (fadd (\<lambda>x. x)) a xs = a + sum_list xs"
  by (induction xs arbitrary: a) (simp_all add: fadd_def)

lemma sum_list_map2_fadd:
  "length r = length ys \<Longrightarrow> sum_list (map2 (fadd (\<lambda>x. x)) r ys) = sum_list r + sum_list ys"
  by (induction r ys rule: list_induct2) (simp_all add: fadd_def)

lemma sum_take_drop: "sum_list (take n xs) + sum_list (drop n xs) = sum_list (xs :: real list)"
  using sum_list_append [of "take n xs" "drop n xs"] by simp

lemma acc8_exact:
  "length r = 8 \<Longrightarrow> acc8 (\<lambda>x. x) r xs = (r', rest) \<Longrightarrow>
   length r' = 8 \<and> sum_list r' + sum_list rest = sum_list r + sum_list xs"
proof (induction "\<lambda>x::real. x" r xs rule: acc8.induct)
  case (1 r xs)
  show ?case
  proof (cases "length xs < 8")
    case True
    with "1.prems" show ?thesis by (simp add: acc8.simps)
  next
    case False
    let ?r1 = "map2 (fadd (\<lambda>x. x)) r (take 8 xs)"
    have lt: "length r = length (take 8 xs)"
      using False "1.prems"(1) by simp
    have l: "length ?r1 = 8"
      using False "1.prems"(1) by simp
    have s: "sum_list ?r1 = sum_list r + sum_list (take 8 xs)"
      by (rule sum_list_map2_fadd [OF lt])
    have "acc8 (\<lambda>x. x) ?r1 (drop 8 xs) = (r', rest)"
      using False "1.prems"(2) by (simp add: acc8.simps [of _ r xs])
    from "1.hyps" [OF False l this]
    have "length r' = 8 \<and> sum_list r' + sum_list rest = sum_list ?r1 + sum_list (drop 8 xs)" .
    with s sum_take_drop [of 8 xs] show ?thesis by simp
  qed
qed

lemma sum_list_8:
  assumes "length (r :: real list) = 8"
  shows "r ! 0 + r ! 1 + (r ! 2 + r ! 3) + (r ! 4 + r ! 5 + (r ! 6 + r ! 7)) = sum_list r"
proof -
  from assms obtain a b c d e f g k where "r = [a, b, c, d, e, f, g, k]"
    by (auto simp: length_Suc_conv eval_nat_numeral)
  then show ?thesis by simp
qed

lemma block_sum_exact:
  assumes "8 \<le> length xs"
  shows "block_sum (\<lambda>x. x) xs = sum_list xs"
proof -
  obtain r rest where a: "acc8 (\<lambda>x. x) (take 8 xs) (drop 8 xs) = (r, rest)"
    by (cases "acc8 (\<lambda>x. x) (take 8 xs) (drop 8 xs)")
  have "length (take 8 xs) = 8"
    using assms by simp
  from acc8_exact [OF this a]
  have l: "length r = 8" and s: "sum_list r + sum_list rest = sum_list xs"
    by (simp_all add: sum_take_drop)
  show ?thesis
    using s sum_list_8 [OF l] by (simp add: block_sum_def a foldl_fadd_exact fadd_def)
qed

lemma pairwise_sum_exact: "pairwise_sum (\<lambda>x. x) xs = sum_list xs"
proof (induction "\<lambda>x::real. x" xs rule: pairwise_sum.induct)
  case (1 xs)
  show ?case
  proof (cases "length xs < 8")
    case True
    then show ?thesis
      by (simp add: pairwise_sum.simps [of _ xs] foldl_fadd_exact)
  next
    case False
    show ?thesis
    proof (cases "length xs \<le> 128")
      case True
      with False show ?thesis
        by (simp add: pairwise_sum.simps [of _ xs] block_sum_exact)
    next
      case big: False
      from "1.hyps" [OF False big] show ?thesis
        using False big
        by (simp add: pairwise_sum.simps [of _ xs] fadd_def sum_take_drop)
    qed
  qed
qed

lemma np_sum_exact: "np_sum (\<lambda>x. x) xs = sum_list xs"
  by (simp add: np_sum_def fadd_def pairwise_sum_exact)

lemma fold_kahan_exact: "fold (kahan_step (\<lambda>x. x)) xs (s, 0) = (s + sum_list xs, 0)"
  by (induction xs arbitrary: s) (simp_all add: kahan_step_def fadd_def fsub_def Let_def add.assoc)

lemma group_sum_exact: "group_sum (\<lambda>x. x) xs = sum_list xs"
  by (simp add: group_sum_def fold_kahan_exact)

lemma series_mean_fp_exact: "series_mean_fp (\<lambda>x. x) xs = series_mean xs"
  by (simp add: series_mean_fp_def series_mean_def fdiv_def np_sum_exact)

lemma daily_agg_fp_exact: "daily_agg_fp (\<lambda>x. x) f col = daily_agg f col"
  by (simp add: daily_agg_fp_def daily_agg_def group_sum_exact fsub_def)

lemma compute_scenarios_fp_exact: "compute_scenarios_fp (\<lambda>x. x) h a = compute_scenarios h a"
  by (simp add: compute_scenarios_fp_def compute_scenarios_def np_sum_exact fsub_def
                daily_agg_fp_exact series_mean_fp_exact Let_def
           split: prod.split option.split sum.split)

lemma stats_fp_exact: "stats_fp (\<lambda>x. x) f bh = stats_of f bh"
  by (simp add: stats_fp_def stats_of_def np_sum_exact fsub_def daily_agg_fp_exact
                series_mean_fp_exact)

section \<open>The computation with rounding, characterised\<close>


lemma pairwise_sum_small:
  "length xs < 8 \<Longrightarrow> pairwise_sum rnd xs = foldl (fadd rnd) 0 xs"
  by (simp add: pairwise_sum.simps [of rnd xs])

lemma daily_agg_fp_rows: "rows f' = rows f \<Longrightarrow> daily_agg_fp rnd f' col = daily_agg_fp rnd f col"
  by (simp add: daily_agg_fp_def groupby_date_rows [of f' f])

lemma compute_scenarios_fp_eq:
  assumes "is_business_hours (frames h a) = Some bh" and "length bh = length (rows (frames h a))"
  shows "compute_scenarios_fp rnd h a = Inr (stats_fp rnd (frames h a) bh, final_store h a bh)"
proof -
  let ?f = "frames h a"
  define h1 where "h1 = h\<lparr>frames := (frames h)(fresh h := ?f), fresh := Suc (fresh h)\<rparr>"
  define h2 where "h2 = h1\<lparr>frames := (frames h1)(Suc (fresh h) :=
                          ?f\<lparr>energy_s1_kWh := Some (s1_energy (rows ?f))\<rparr>),
                        fresh := Suc (Suc (fresh h))\<rparr>"
  have b: "copy h a = (fresh h, h1)" by (simp add: copy_def h1_def)
  have f1: "frames h1 (fresh h) = ?f" by (simp add: h1_def)
  have c1: "cenario1 h1 (fresh h) = (Suc (fresh h), h2)"
    by (simp add: cenario1_eq h2_def) (simp add: h1_def)
  have f2: "frames h2 (Suc (fresh h)) = ?f\<lparr>energy_s1_kWh := Some (s1_energy (rows ?f))\<rparr>"
    by (simp add: h2_def)
  have f2b: "frames h2 (fresh h) = ?f"
    by (simp add: h2_def h1_def)
  have fr2: "fresh h2 = Suc (Suc (fresh h))"
    by (simp add: h2_def)
  have "h2\<lparr>frames := (frames h2)(Suc (Suc (fresh h)) :=
              ?f\<lparr>energy_s2_kWh := Some (s2_energy (rows ?f) bh)\<rparr>),
           fresh := Suc (Suc (Suc (fresh h)))\<rparr> = final_store h a bh"
    by (simp add: h2_def h1_def final_store_def)
  then have c2: "cenario2 h2 (fresh h) = Inr (Suc (Suc (fresh h)), final_store h a bh)"
    using assms by (simp add: cenario2_eq f2b fr2)
  have f3: "frames (final_store h a bh) (Suc (Suc (fresh h)))
            = ?f\<lparr>energy_s2_kWh := Some (s2_energy (rows ?f) bh)\<rparr>"
    by (simp add: final_store_def)
  have d1: "daily_agg_fp rnd (?f\<lparr>energy_s1_kWh := Some (s1_energy (rows ?f))\<rparr>) col
            = daily_agg_fp rnd ?f col" for col
    by (rule daily_agg_fp_rows) simp
  have d2: "daily_agg_fp rnd (?f\<lparr>energy_s2_kWh := Some (s2_energy (rows ?f) bh)\<rparr>) col
            = daily_agg_fp rnd ?f col" for col
    by (rule daily_agg_fp_rows) simp
  show ?thesis
    unfolding compute_scenarios_fp_def b
    by (simp add: Let_def f1 c1 f2 c2 f3 d1 d2 stats_fp_def)
qed




section \<open>The example tables, evaluated\<close>

lemmas eval_defs = compute_scenarios_def cenario1_def cenario2_def copy_def update_def
  groupby_date_def index_def isin_def mask_and_def any_mask_def loc_def loc_set_def
  timedelta_hours_def series_mean_def s1_day_def daily_agg_def Let_def

lemma demo_frame_ok: "frame_ok (frames demo_store 0)"
  by (simp add: demo_store_def demo_frame_def frame_ok_def col_ok_def)

lemma demo_flags: "is_business_hours (frames demo_store 0) = Some [0, 1, 1]"
  by (simp add: demo_store_def demo_frame_def)

lemma demo_cenario1: "cenario1 demo_store 0 = (1, demo_s1_store)"
  by (simp add: demo_store_def demo_frame_def demo_s1_store_def eval_defs)

lemma demo_cenario2: "cenario2 demo_store 0 = Inr (1, demo_s2_store)"
  by (simp add: demo_store_def demo_frame_def demo_s2_store_def eval_defs)

lemma demo_compute: "compute_scenarios demo_store 0 = Inr (demo_stats, demo_final)"
  by (simp add: demo_store_def demo_frame_def demo_stats_def demo_final_def eval_defs
                eval_nat_numeral)

lemma zero_compute: "compute_scenarios zero_store 0 = Inr (zero_stats, zero_final)"
  by (simp add: zero_store_def zero_frame_def zero_stats_def zero_final_def eval_defs
                eval_nat_numeral)

lemma zero_frame_ok: "frame_ok (frames zero_store 0)"
  by (simp add: zero_store_def zero_frame_def frame_ok_def col_ok_def)

lemma boundary_length: "length boundary_day = 97"
  by (simp add: boundary_day_def)

lemma boundary_nth:
  "i < 97 \<Longrightarrow> boundary_day ! i =
     \<lparr>timestamp = 32400000000000 + int i * 300000000000, date = 0,
      energy_5min_real_kWh = 1, on_off = 1\<rparr>"
  by (simp add: boundary_day_def)

lemma boundary_day_on: "day_on boundary_day 0 = {0..<97}"
  by (auto simp: day_on_def boundary_length boundary_nth)

lemma boundary_last_time:
  "Max ((\<lambda>j. timestamp (boundary_day ! j)) ` day_on boundary_day 0) = 61200000000000"
proof (rule Max_eqI)
  show "finite ((\<lambda>j. timestamp (boundary_day ! j)) ` day_on boundary_day 0)"
    by (simp add: boundary_day_on)
next
  fix y
  assume "y \<in> (\<lambda>j. timestamp (boundary_day ! j)) ` day_on boundary_day 0"
  then show "y \<le> 61200000000000"
    by (auto simp: boundary_day_on boundary_nth)
next
  have "(96::nat) \<in> day_on boundary_day 0"
    by (simp add: boundary_day_on)
  moreover have "timestamp (boundary_day ! 96) = 61200000000000"
    by (simp add: boundary_nth)
  ultimately show "61200000000000 \<in> (\<lambda>j. timestamp (boundary_day ! j)) ` day_on boundary_day 0"
    by (metis image_eqI)
qed

lemma boundary_off_early: "i < 97 \<Longrightarrow> off_early boundary_day i \<longleftrightarrow> 84 < i"
  by (auto simp: off_early_def boundary_nth boundary_last_time timedelta_hours_def)

lemma boundary_s1_energy: "s1_energy boundary_day = replicate 85 1 @ replicate 12 0"
  by (rule nth_equalityI)
     (auto simp: length_s1_energy boundary_length s1_energy_nth boundary_off_early
                 boundary_nth nth_append)

lemma remdups_replicate_Suc: "remdups (replicate (Suc n) x) = [x]"
  by (induction n) auto

lemma remdups_replicate_pos: "0 < n \<Longrightarrow> remdups (replicate n x) = [x]"
  using remdups_replicate_Suc [of "n - 1" x] by simp

lemma boundary_groupby: "groupby_date boundary_frame = [(0, [0..<97])]"
proof -
  have "map date boundary_day = replicate 97 0"
    by (rule nth_equalityI) (simp_all add: boundary_length boundary_nth)
  moreover have "filter (\<lambda>i. date (boundary_day ! i) = 0) [0..<97] = [0..<97]"
    by (rule filter_True) (simp add: boundary_nth)
  ultimately show ?thesis
    by (simp add: groupby_date_def index_def boundary_frame_def boundary_length
                  remdups_replicate_pos del: upt_rec_numeral)
qed

lemma boundary_daily:
  "daily_agg boundary_frame (s1_energy boundary_day)
   = [\<lparr>day = 0, energy_base_kWh = 97, energy_scenario_kWh = 85, economia_kWh = 12\<rparr>]"
proof -
  have "(\<Sum>i\<leftarrow>[0..<97]. energy_5min_real_kWh (boundary_day ! i)) = (\<Sum>i\<leftarrow>[0..<97]. 1)"
    by (rule arg_cong [where f = sum_list], rule map_cong) (simp_all add: boundary_nth)
  then have b: "(\<Sum>i\<leftarrow>[0..<97]. energy_5min_real_kWh (boundary_day ! i)) = 97"
    by (simp add: sum_list_triv del: upt_rec_numeral)
  have "(\<Sum>i\<leftarrow>[0..<length (s1_energy boundary_day)]. s1_energy boundary_day ! i)
        = sum_list (s1_energy boundary_day)"
    by (simp add: map_nth del: upt_rec_numeral)
  then have s: "(\<Sum>i\<leftarrow>[0..<97]. s1_energy boundary_day ! i) = 85"
    by (simp add: length_s1_energy boundary_length) (simp add: boundary_s1_energy sum_list_replicate)
  have r: "rows boundary_frame = boundary_day"
    by (simp add: boundary_frame_def)
  show ?thesis
    by (simp add: daily_agg_def boundary_groupby Let_def r b s del: upt_rec_numeral)
qed

lemma map_sum_after:
  "map_sum id (g \<circ> fst) x = Inr y \<Longrightarrow> map_sum id (f \<circ> g \<circ> fst) x = Inr (f y)"
  by (cases x) auto

lemma boundary_cenario1:
  "cenario1 boundary_store 0 =
     (1, \<lparr>frames = (\<lambda>_. boundary_frame)
            (1 := boundary_frame\<lparr>energy_s1_kWh := Some (replicate 85 1 @ replicate 12 0)\<rparr>),
          fresh = 2\<rparr>)"
  by (simp add: cenario1_eq boundary_store_def)
     (simp add: boundary_frame_def boundary_s1_energy)

lemma boundary_s1_daily:
  "map_sum id (s1_daily \<circ> fst) (compute_scenarios boundary_store 0)
   = Inr [\<lparr>day = 0, energy_base_kWh = 97, energy_scenario_kWh = 85, economia_kWh = 12\<rparr>]"
proof -
  have 1: "is_business_hours (frames boundary_store 0) = Some (replicate 97 1)"
    by (simp add: boundary_store_def boundary_frame_def)
  have 2: "length (replicate 97 (1::int)) = length (rows (frames boundary_store 0))"
    by (simp add: boundary_store_def boundary_frame_def boundary_length)
  have 3: "frames boundary_store 0 = boundary_frame"
    by (simp add: boundary_store_def)
  have 4: "rows boundary_frame = boundary_day"
    by (simp add: boundary_frame_def)
  show ?thesis
    by (simp add: compute_scenarios_eq [OF 1 2] stats_of_def Let_def 3 4 boundary_daily)
qed

section \<open>The float64 operations of the examples\<close>

lemma fl64_op_0:
  "fadd fl64 0 (3602879701896397 / 18014398509481984) = 3602879701896397 / 18014398509481984"
  unfolding fadd_def
  by (subst fl64_eval [where e = "-3"]) (simp_all add: pow2_def round_half_even_def)

lemma fl64_op_1:
  "fadd fl64 (3602879701896397 / 18014398509481984) (6314046677573435 / 9007199254740992) = 4057743264260817 / 4503599627370496"
  unfolding fadd_def
  by (subst fl64_eval [where e = "-1"]) (simp_all add: pow2_def round_half_even_def)

lemma fl64_op_2:
  "fadd fl64 0 (4057743264260817 / 4503599627370496) = 4057743264260817 / 4503599627370496"
  unfolding fadd_def
  by (subst fl64_eval [where e = "-1"]) (simp_all add: pow2_def round_half_even_def)

lemma fl64_op_3:
  "fadd fl64 0 0 = 0"
  by (simp add: fadd_def fl64_def)

lemma fl64_op_4:
  "fadd fl64 0 (6314046677573435 / 9007199254740992) = 6314046677573435 / 9007199254740992"
  unfolding fadd_def
  by (subst fl64_eval [where e = "-1"]) (simp_all add: pow2_def round_half_even_def)

lemma fl64_op_5:
  "fsub fl64 (4057743264260817 / 4503599627370496) (6314046677573435 / 9007199254740992) = 1801439850948199 / 9007199254740992"
  unfolding fsub_def
  by (subst fl64_eval [where e = "-3"]) (simp_all add: pow2_def round_half_even_def)

lemma fl64_op_6:
  "fsub fl64 (3602879701896397 / 18014398509481984) 0 = 3602879701896397 / 18014398509481984"
  unfolding fsub_def
  by (subst fl64_eval [where e = "-3"]) (simp_all add: pow2_def round_half_even_def)

lemma fl64_op_7:
  "fsub fl64 (3602879701896397 / 18014398509481984) (3602879701896397 / 18014398509481984) = 0"
  by (simp add: fsub_def fl64_def)

lemma fl64_op_8:
  "fsub fl64 0 0 = 0"
  by (simp add: fsub_def fl64_def)

lemma fl64_op_9:
  "fsub fl64 (6314046677573435 / 9007199254740992) 0 = 6314046677573435 / 9007199254740992"
  unfolding fsub_def
  by (subst fl64_eval [where e = "-1"]) (simp_all add: pow2_def round_half_even_def)

lemma fl64_op_10:
  "fsub fl64 (6314046677573435 / 9007199254740992) (6314046677573435 / 9007199254740992) = 0"
  by (simp add: fsub_def fl64_def)

lemma fl64_op_11:
  "fadd fl64 (3602879701896397 / 18014398509481984) 0 = 3602879701896397 / 18014398509481984"
  unfolding fadd_def
  by (subst fl64_eval [where e = "-3"]) (simp_all add: pow2_def round_half_even_def)

lemma fl64_op_12:
  "fdiv fl64 (3602879701896397 / 18014398509481984) 2 = 3602879701896397 / 36028797018963968"
  unfolding fdiv_def
  by (subst fl64_eval [where e = "-4"]) (simp_all add: pow2_def round_half_even_def)

lemma fl64_op_13:
  "fadd fl64 0 (1 / 9007199254740992) = 1 / 9007199254740992"
  unfolding fadd_def
  by (subst fl64_eval [where e = "-53"]) (simp_all add: pow2_def round_half_even_def)

lemma fl64_op_14:
  "fadd fl64 (1 / 9007199254740992) (4503599627370497 / 4503599627370496) = 2251799813685249 / 2251799813685248"
  unfolding fadd_def
  by (subst fl64_eval [where e = "0"]) (simp_all add: pow2_def round_half_even_def)

lemma fl64_op_15:
  "fadd fl64 (2251799813685249 / 2251799813685248) (4503599627370497 / 2251799813685248) = 3377699720527873 / 1125899906842624"
  unfolding fadd_def
  by (subst fl64_eval [where e = "1"]) (simp_all add: pow2_def round_half_even_def)

lemma fl64_op_16:
  "fadd fl64 0 (3377699720527873 / 1125899906842624) = 3377699720527873 / 1125899906842624"
  unfolding fadd_def
  by (subst fl64_eval [where e = "1"]) (simp_all add: pow2_def round_half_even_def)

lemma fl64_op_17:
  "fsub fl64 (3377699720527873 / 1125899906842624) (3377699720527873 / 1125899906842624) = 0"
  by (simp add: fsub_def fl64_def)

lemma fl64_op_18:
  "fsub fl64 (1 / 9007199254740992) 0 = 1 / 9007199254740992"
  unfolding fsub_def
  by (subst fl64_eval [where e = "-53"]) (simp_all add: pow2_def round_half_even_def)

lemma fl64_op_19:
  "fsub fl64 (1 / 9007199254740992) (1 / 9007199254740992) = 0"
  by (simp add: fsub_def fl64_def)

lemma fl64_op_20:
  "fsub fl64 (4503599627370497 / 4503599627370496) 0 = 4503599627370497 / 4503599627370496"
  unfolding fsub_def
  by (subst fl64_eval [where e = "0"]) (simp_all add: pow2_def round_half_even_def)

lemma fl64_op_21:
  "fsub fl64 (2251799813685249 / 2251799813685248) (1 / 9007199254740992) = 2251799813685249 / 2251799813685248"
  unfolding fsub_def
  by (subst fl64_eval [where e = "0"]) (simp_all add: pow2_def round_half_even_def)

lemma fl64_op_22:
  "fsub fl64 (2251799813685249 / 2251799813685248) (4503599627370497 / 4503599627370496) = 1 / 4503599627370496"
  unfolding fsub_def
  by (subst fl64_eval [where e = "-52"]) (simp_all add: pow2_def round_half_even_def)

lemma fl64_op_23:
  "fsub fl64 (4503599627370497 / 2251799813685248) (1 / 4503599627370496) = 2"
  unfolding fsub_def
  by (subst fl64_eval [where e = "1"]) (simp_all add: pow2_def round_half_even_def)

lemma fl64_op_24:
  "fadd fl64 (2251799813685249 / 2251799813685248) 2 = 6755399441055745 / 2251799813685248"
  unfolding fadd_def
  by (subst fl64_eval [where e = "1"]) (simp_all add: pow2_def round_half_even_def)

lemma fl64_op_25:
  "fsub fl64 (6755399441055745 / 2251799813685248) (2251799813685249 / 2251799813685248) = 2"
  unfolding fsub_def
  by (subst fl64_eval [where e = "1"]) (simp_all add: pow2_def round_half_even_def)

lemma fl64_op_26:
  "fsub fl64 2 2 = 0"
  by (simp add: fsub_def fl64_def)

lemma fl64_op_27:
  "fsub fl64 (6755399441055745 / 2251799813685248) (6755399441055745 / 2251799813685248) = 0"
  by (simp add: fsub_def fl64_def)

lemma fl64_op_28:
  "fdiv fl64 0 1 = 0"
  by (simp add: fdiv_def fl64_def)

lemma fl64_op_29:
  "fadd fl64 0 (4503599627370497 / 4503599627370496) = 4503599627370497 / 4503599627370496"
  unfolding fadd_def
  by (subst fl64_eval [where e = "0"]) (simp_all add: pow2_def round_half_even_def)

lemma fl64_op_30:
  "fadd fl64 (4503599627370497 / 4503599627370496) (4503599627370497 / 2251799813685248) = 3377699720527873 / 1125899906842624"
  unfolding fadd_def
  by (subst fl64_eval [where e = "1"]) (simp_all add: pow2_def round_half_even_def)

lemma fl64_op_31:
  "fsub fl64 (4503599627370497 / 4503599627370496) (4503599627370497 / 4503599627370496) = 0"
  by (simp add: fsub_def fl64_def)

lemma fl64_op_32:
  "fsub fl64 (4503599627370497 / 2251799813685248) 0 = 4503599627370497 / 2251799813685248"
  unfolding fsub_def
  by (subst fl64_eval [where e = "1"]) (simp_all add: pow2_def round_half_even_def)

lemma fl64_op_33:
  "fsub fl64 (3377699720527873 / 1125899906842624) (4503599627370497 / 4503599627370496) = 2251799813685249 / 1125899906842624"
  unfolding fsub_def
  by (subst fl64_eval [where e = "1"]) (simp_all add: pow2_def round_half_even_def)

lemma fl64_op_34:
  "fsub fl64 (2251799813685249 / 1125899906842624) (4503599627370497 / 2251799813685248) = 1 / 2251799813685248"
  unfolding fsub_def
  by (subst fl64_eval [where e = "-51"]) (simp_all add: pow2_def round_half_even_def)

lemma fl64_op_35:
  "fsub fl64 (6755399441055745 / 2251799813685248) (3377699720527873 / 1125899906842624) = - (1 / 2251799813685248)"
  unfolding fsub_def
  by (subst fl64_eval [where e = "-51"]) (simp_all add: pow2_def round_half_even_def)

lemma fl64_op_36:
  "fadd fl64 0 (- (1 / 2251799813685248)) = - (1 / 2251799813685248)"
  unfolding fadd_def
  by (subst fl64_eval [where e = "-51"]) (simp_all add: pow2_def round_half_even_def)

lemma fl64_op_37:
  "fdiv fl64 (- (1 / 2251799813685248)) 1 = - (1 / 2251799813685248)"
  unfolding fdiv_def
  by (subst fl64_eval [where e = "-51"]) (simp_all add: pow2_def round_half_even_def)

lemmas fl64_ops =
  fl64_op_0 fl64_op_1 fl64_op_2 fl64_op_3 fl64_op_4 fl64_op_5
  fl64_op_6 fl64_op_7 fl64_op_8 fl64_op_9 fl64_op_10 fl64_op_11
  fl64_op_12 fl64_op_13 fl64_op_14 fl64_op_15 fl64_op_16 fl64_op_17
  fl64_op_18 fl64_op_19 fl64_op_20 fl64_op_21 fl64_op_22 fl64_op_23
  fl64_op_24 fl64_op_25 fl64_op_26 fl64_op_27 fl64_op_28 fl64_op_29
  fl64_op_30 fl64_op_31 fl64_op_32 fl64_op_33 fl64_op_34 fl64_op_35
  fl64_op_36 fl64_op_37

lemmas eval_fp_defs = compute_scenarios_fp_def cenario1_def cenario2_def copy_def update_def
  groupby_date_def index_def isin_def mask_and_def any_mask_def loc_def loc_set_def
  timedelta_hours_def series_mean_fp_def s1_day_def daily_agg_fp_def Let_def
  np_sum_def pairwise_sum_small group_sum_def kahan_step_def

lemma fp_compute: "map_sum id fst (compute_scenarios_fp fl64 fp_store 0) = Inr fp_stats"
  by (simp add: fp_store_def fp_frame_def fp_stats_def eval_fp_defs fl64_ops)

lemma kahan_compute: "map_sum id fst (compute_scenarios_fp fl64 kahan_store 0) = Inr kahan_stats"
  by (simp add: kahan_store_def kahan_frame_def kahan_stats_def eval_fp_defs fl64_ops)

lemma map_sum_fst:
  "map_sum id fst x = Inr y \<Longrightarrow> map_sum id (g \<circ> fst) x = Inr (g y)"
  by (cases x) auto

lemma demo_compute_fp: "compute_scenarios_fp (\<lambda>x. x) demo_store 0 = Inr (demo_stats, demo_final)"
  by (simp add: compute_scenarios_fp_exact demo_compute)

lemma stats_fp_s2_total: "s2_total_kWh (stats_fp rnd f bh) = np_sum rnd (s2_energy (rows f) bh)"
  by (simp add: stats_fp_def Let_def)

lemma stats_fp_s2_economia:
  "s2_economia_kWh (stats_fp rnd f bh)
   = fsub rnd (np_sum rnd (map energy_5min_real_kWh (rows f))) (np_sum rnd (s2_energy (rows f) bh))"
  by (simp add: stats_fp_def Let_def)

section \<open>Scenario 1\<close>

text \<open>
  Claim C1. After lines 75 to 94 the frame \<open>s1\<close> has the rows of the input and a column
  \<open>energy_s1_kWh\<close> such that, for every row \<open>i\<close>: if no reading of the date of row \<open>i\<close>
  has \<open>on_off = 1\<close>, the entry is the baseline energy of the row; otherwise, with
  \<open>last_time\<close> the greatest timestamp among the readings of that date with \<open>on_off = 1\<close>
  and \<open>cutoff\<close> one hour earlier, the entry is 0 when the row has \<open>on_off = 1\<close> and
  \<open>cutoff < timestamp \<le> last_time\<close>, and the baseline energy of the row in every other
  case.
\<close>

theorem scenario1_per_day_rule:
  assumes "cenario1 h a = (s1, h')"
  shows "\<exists>col. energy_s1_kWh (frames h' s1) = Some col \<and>
           rows (frames h' s1) = rows (frames h a) \<and>
           length col = length (rows (frames h a)) \<and>
           (\<forall>i<length (rows (frames h a)).
              let rs = rows (frames h a);
                  on = filter (\<lambda>x. date x = date (rs ! i) \<and> on_off x = 1) rs
              in if on = [] then col ! i = energy_5min_real_kWh (rs ! i)
                 else
                   let last_time = Max (set (map timestamp on));
                       cutoff = last_time - timedelta_hours 1
                   in if on_off (rs ! i) = 1 \<and> cutoff < timestamp (rs ! i)
                         \<and> timestamp (rs ! i) \<le> last_time
                      then col ! i = 0
                      else col ! i = energy_5min_real_kWh (rs ! i))"
proof -
  let ?rs = "rows (frames h a)"
  from assms have s1: "s1 = fresh h"
    and h': "frames h' s1 = (frames h a)\<lparr>energy_s1_kWh := Some (s1_energy ?rs)\<rparr>"
    by (auto simp: cenario1_eq)
  have "let rs = ?rs;
            on = filter (\<lambda>x. date x = date (rs ! i) \<and> on_off x = 1) rs
        in if on = [] then s1_energy ?rs ! i = energy_5min_real_kWh (rs ! i)
           else
             let last_time = Max (set (map timestamp on));
                 cutoff = last_time - timedelta_hours 1
             in if on_off (rs ! i) = 1 \<and> cutoff < timestamp (rs ! i)
                   \<and> timestamp (rs ! i) \<le> last_time
                then s1_energy ?rs ! i = 0
                else s1_energy ?rs ! i = energy_5min_real_kWh (rs ! i)"
    if i: "i < length ?rs" for i
  proof (cases "filter (\<lambda>x. date x = date (?rs ! i) \<and> on_off x = 1) ?rs = []")
    case True
    with off_early_no_on [OF i] show ?thesis
      by (simp add: Let_def s1_energy_nth i)
  next
    case False
    then show ?thesis
      by (simp add: Let_def s1_energy_nth i off_early_def day_on_image)
  qed
  then show ?thesis
    by (simp add: h' length_s1_energy)
qed

theorem scenario1_per_day_rule_witness:
  "cenario1 demo_store 0 = (1, demo_s1_store) \<and>
   (\<exists>col. energy_s1_kWh (frames demo_s1_store 1) = Some col \<and>
      col ! 0 = 2 \<and> col ! 1 = 0 \<and> col ! 2 = 5)"
proof -
  have h: "cenario1 demo_store 0 = (1, demo_s1_store)"
    by (rule demo_cenario1)
  have n: "length (rows (frames demo_store 0)) = 3"
    by (simp add: demo_store_def demo_frame_def)
  from scenario1_per_day_rule [OF h] obtain col where
    c: "energy_s1_kWh (frames demo_s1_store 1) = Some col" and
    p: "\<And>i. i < 3 \<Longrightarrow>
          (let rs = rows (frames demo_store 0);
               on = filter (\<lambda>x. date x = date (rs ! i) \<and> on_off x = 1) rs
           in if on = [] then col ! i = energy_5min_real_kWh (rs ! i)
              else
                let last_time = Max (set (map timestamp on));
                    cutoff = last_time - timedelta_hours 1
                in if on_off (rs ! i) = 1 \<and> cutoff < timestamp (rs ! i)
                      \<and> timestamp (rs ! i) \<le> last_time
                   then col ! i = 0
                   else col ! i = energy_5min_real_kWh (rs ! i))"
    unfolding n by blast
  from p [of 0] have "col ! 0 = 2"
    by (simp add: demo_store_def demo_frame_def timedelta_hours_def)
  moreover from p [of 1] have "col ! 1 = 0"
    by (simp add: demo_store_def demo_frame_def timedelta_hours_def)
  moreover from p [of 2] have "col ! 2 = 5"
    by (simp add: demo_store_def demo_frame_def timedelta_hours_def)
  ultimately show ?thesis using h c by blast
qed

text \<open>
  Claim C5, as the code has it. On the boundary day (readings with \<open>on_off = 1\<close> every
  five minutes from 09:00 to 17:00, 1 kWh each) the last on reading is at 17:00 and the
  cutoff is 16:00. The reading at 16:00 itself, row 84, is not after the cutoff and keeps
  its energy; the readings from 16:05 to 17:00, rows 85 to 96, are set to zero. These are
  12 readings, and the savings of the day are 12 kWh.
\<close>

theorem scenario1_boundary:
  "timestamp (boundary_day ! 0) = 32400000000000 \<and>
   Max (set (map timestamp boundary_day)) = 61200000000000 \<and>
   Max (set (map timestamp boundary_day)) - timedelta_hours 1 = 57600000000000 \<and>
   timestamp (boundary_day ! 84) = 57600000000000 \<and>
   timestamp (boundary_day ! 85) = 57900000000000 \<and>
   map_option (take 85) (energy_s1_kWh (frames (snd (cenario1 boundary_store 0)) 1))
     = Some (replicate 85 1) \<and>
   map_option (drop 85) (energy_s1_kWh (frames (snd (cenario1 boundary_store 0)) 1))
     = Some (replicate 12 0) \<and>
   map_sum id (s1_daily \<circ> fst) (compute_scenarios boundary_store 0)
     = Inr [\<lparr>day = 0, energy_base_kWh = 97, energy_scenario_kWh = 85, economia_kWh = 12\<rparr>]"
proof -
  have on: "filter (\<lambda>x. date x = 0 \<and> on_off x = 1) boundary_day = boundary_day"
    by (rule filter_True) (auto simp: boundary_day_def)
  have 1: "timestamp (boundary_day ! 0) = 32400000000000"
    and 4: "timestamp (boundary_day ! 84) = 57600000000000"
    and 5: "timestamp (boundary_day ! 85) = 57900000000000"
    by (simp_all add: boundary_nth)
  have 2: "Max (set (map timestamp boundary_day)) = 61200000000000"
    using boundary_last_time unfolding day_on_image on .
  have 3: "Max (set (map timestamp boundary_day)) - timedelta_hours 1 = 57600000000000"
    unfolding 2 by (simp add: timedelta_hours_def)
  have c: "energy_s1_kWh (frames (snd (cenario1 boundary_store 0)) 1)
           = Some (replicate 85 1 @ replicate 12 0)"
    by (simp add: boundary_cenario1)
  have 6: "map_option (take 85) (energy_s1_kWh (frames (snd (cenario1 boundary_store 0)) 1))
           = Some (replicate 85 1)"
    unfolding c by simp
  have 7: "map_option (drop 85) (energy_s1_kWh (frames (snd (cenario1 boundary_store 0)) 1))
           = Some (replicate 12 0)"
    unfolding c by simp
  from 1 2 3 4 5 6 7 boundary_s1_daily show ?thesis
    by blast
qed

theorem scenario1_boundary_counterexample:
  "energy_s1_kWh (frames (snd (cenario1 boundary_store 0)) 1)
     \<noteq> Some (replicate 84 1 @ replicate 13 0) \<and>
   map_sum id (map economia_kWh \<circ> s1_daily \<circ> fst) (compute_scenarios boundary_store 0)
     \<noteq> Inr [13]"
proof -
  have "(replicate 85 1 @ replicate 12 0) ! 84 = (1::real)"
    by (simp add: nth_append)
  moreover have "(replicate 84 1 @ replicate 13 0) ! 84 = (0::real)"
    by (simp add: nth_append)
  ultimately have "replicate 85 1 @ replicate 12 0 \<noteq> replicate 84 1 @ replicate 13 (0::real)"
    by (metis zero_neq_one)
  then have 1: "energy_s1_kWh (frames (snd (cenario1 boundary_store 0)) 1)
                \<noteq> Some (replicate 84 1 @ replicate 13 0)"
    by (simp add: boundary_cenario1)
  from map_sum_after [OF boundary_s1_daily, of "map economia_kWh"]
  have 2: "map_sum id (map economia_kWh \<circ> s1_daily \<circ> fst) (compute_scenarios boundary_store 0)
           \<noteq> Inr [13]"
    by simp
  from 1 2 show ?thesis ..
qed

section \<open>Scenario 2\<close>

text \<open>
  Claim C2, as the code has it. On a frame that has the column \<open>is_business_hours\<close>,
  lines 111 to 115 give every row the scenario energy 0 where the flag is 0 and the
  baseline energy where the flag is 1, whatever \<open>on_off\<close> is. The total scenario energy
  that \<open>compute_scenarios_fp\<close> returns is the rounded sum of that column, and the total
  savings are the rounded difference of the total baseline energy and the total scenario
  energy: the float64 sum and difference when the rounding is \<open>fl64\<close>. In exact arithmetic the total savings are the sum of the baseline energy over
  the rows with flag 0 and, the flags being 0 or 1, the total scenario energy is the sum
  of the baseline energy over the rows with flag 1; in float64 the totals can differ from
  these sums by rounding.
\<close>

theorem scenario2_rule:
  assumes "is_business_hours (frames h a) = Some bh" and "frame_ok (frames h a)"
  shows "\<exists>s2 h2 col r h'.
           cenario2 h a = Inr (s2, h2) \<and> energy_s2_kWh (frames h2 s2) = Some col \<and>
           rows (frames h2 s2) = rows (frames h a) \<and>
           length col = length (rows (frames h a)) \<and>
           (\<forall>i<length (rows (frames h a)).
              (bh ! i = 0 \<longrightarrow> col ! i = 0) \<and>
              (bh ! i = 1 \<longrightarrow> col ! i = energy_5min_real_kWh (rows (frames h a) ! i))) \<and>
           compute_scenarios_fp rnd h a = Inr (r, h') \<and>
           s2_total_kWh r = np_sum rnd col \<and>
           s2_economia_kWh r =
             fsub rnd (np_sum rnd (map energy_5min_real_kWh (rows (frames h a)))) (np_sum rnd col) \<and>
           ((\<forall>x. rnd x = x) \<longrightarrow>
              s2_economia_kWh r =
                (\<Sum>i\<leftarrow>filter (\<lambda>i. bh ! i = 0) [0..<length (rows (frames h a))].
                   energy_5min_real_kWh (rows (frames h a) ! i)) \<and>
              ((\<forall>v\<in>set bh. v = 0 \<or> v = 1) \<longrightarrow>
                 s2_total_kWh r =
                   (\<Sum>i\<leftarrow>filter (\<lambda>i. bh ! i = 1) [0..<length (rows (frames h a))].
                      energy_5min_real_kWh (rows (frames h a) ! i))))"
proof -
  let ?f = "frames h a" and ?rs = "rows (frames h a)"
  from assms have l: "length bh = length ?rs"
    by (simp add: frame_ok_def col_ok_def)
  let ?h2 = "h\<lparr>frames := (frames h)(fresh h := ?f\<lparr>energy_s2_kWh := Some (s2_energy ?rs bh)\<rparr>),
                fresh := Suc (fresh h)\<rparr>"
  have 1: "cenario2 h a = Inr (fresh h, ?h2)"
    by (rule cenario2_eq [OF assms(1) l])
  have 2: "energy_s2_kWh (frames ?h2 (fresh h)) = Some (s2_energy ?rs bh)"
    and 3: "rows (frames ?h2 (fresh h)) = ?rs"
    by simp_all
  have 4: "\<forall>i<length ?rs. (bh ! i = 0 \<longrightarrow> s2_energy ?rs bh ! i = 0) \<and>
              (bh ! i = 1 \<longrightarrow> s2_energy ?rs bh ! i = energy_5min_real_kWh (?rs ! i))"
    by (simp add: s2_energy_nth)
  have 5: "compute_scenarios_fp rnd h a = Inr (stats_fp rnd ?f bh, final_store h a bh)"
    by (rule compute_scenarios_fp_eq [OF assms(1) l])
  have 6: "s2_total_kWh (stats_fp rnd ?f bh) = np_sum rnd (s2_energy ?rs bh)"
    by (rule stats_fp_s2_total)
  have 7: "s2_economia_kWh (stats_fp rnd ?f bh)
           = fsub rnd (np_sum rnd (map energy_5min_real_kWh ?rs)) (np_sum rnd (s2_energy ?rs bh))"
    by (rule stats_fp_s2_economia)
  have 8: "s2_economia_kWh (stats_fp rnd ?f bh)
             = (\<Sum>i\<leftarrow>filter (\<lambda>i. bh ! i = 0) [0..<length ?rs]. energy_5min_real_kWh (?rs ! i)) \<and>
           ((\<forall>v\<in>set bh. v = 0 \<or> v = 1) \<longrightarrow>
              s2_total_kWh (stats_fp rnd ?f bh)
              = (\<Sum>i\<leftarrow>filter (\<lambda>i. bh ! i = 1) [0..<length ?rs]. energy_5min_real_kWh (?rs ! i)))"
    if "\<forall>x. rnd x = x"
  proof -
    from that have "rnd = (\<lambda>x. x)" by auto
    then show ?thesis
      using sum_list_s2_total [OF l]
      by (simp add: stats_fp_exact stats_of_def Let_def sum_list_s2_saved)
  qed
  from 1 2 3 4 5 6 7 8 length_s2_energy [of ?rs bh] show ?thesis
    by blast
qed

theorem scenario2_rule_witness:
  "is_business_hours (frames demo_store 0) = Some [0, 1, 1] \<and> frame_ok (frames demo_store 0) \<and>
   set [0, 1, 1::int] \<subseteq> {0, 1} \<and>
   energy_s2_kWh (frames demo_s2_store 1) = Some [0, 3, 5] \<and>
   compute_scenarios_fp (\<lambda>x. x) demo_store 0 = Inr (demo_stats, demo_final) \<and>
   s2_total_kWh demo_stats = 3 + 5 \<and> s2_economia_kWh demo_stats = 2"
proof -
  have b: "\<forall>v\<in>set [0, 1, 1::int]. v = 0 \<or> v = 1"
    by simp
  have i: "\<forall>x::real. (\<lambda>x. x) x = x"
    by simp
  from scenario2_rule [OF demo_flags demo_frame_ok, of "\<lambda>x. x"] obtain s2 h2 col r h' where
    1: "cenario2 demo_store 0 = Inr (s2, h2)" and
    2: "energy_s2_kWh (frames h2 s2) = Some col" and
    3: "compute_scenarios_fp (\<lambda>x. x) demo_store 0 = Inr (r, h')" and
    4: "(\<forall>x::real. (\<lambda>x. x) x = x) \<longrightarrow>
        s2_economia_kWh r =
          (\<Sum>i\<leftarrow>filter (\<lambda>i. [0, 1, 1::int] ! i = 0) [0..<length (rows (frames demo_store 0))].
             energy_5min_real_kWh (rows (frames demo_store 0) ! i)) \<and>
        ((\<forall>v\<in>set [0, 1, 1::int]. v = 0 \<or> v = 1) \<longrightarrow>
         s2_total_kWh r =
          (\<Sum>i\<leftarrow>filter (\<lambda>i. [0, 1, 1::int] ! i = 1) [0..<length (rows (frames demo_store 0))].
             energy_5min_real_kWh (rows (frames demo_store 0) ! i)))"
    by blast
  from 1 have s2: "s2 = 1" and h2: "h2 = demo_s2_store"
    by (simp_all add: demo_cenario2)
  from 3 have r: "r = demo_stats"
    by (simp add: demo_compute_fp)
  from 2 have "energy_s2_kWh (frames demo_s2_store 1) = Some col"
    by (simp add: s2 h2)
  then have c: "energy_s2_kWh (frames demo_s2_store 1) = Some [0, 3, 5]"
    by (simp add: demo_s2_store_def)
  from 4 i have e: "s2_economia_kWh demo_stats = 2"
    by (simp add: r demo_store_def demo_frame_def eval_nat_numeral)
  from 4 i b have t: "s2_total_kWh demo_stats = 3 + 5"
    by (simp add: r demo_store_def demo_frame_def eval_nat_numeral)
  have "set [0, 1, 1::int] \<subseteq> {0, 1}"
    by simp
  with c e t demo_flags demo_frame_ok demo_compute_fp show ?thesis
    by blast
qed

theorem scenario2_rule_counterexample:
  "is_business_hours (frames fp_store 0) = Some [0, 1] \<and>
   map_sum id (s2_economia_kWh \<circ> fst) (compute_scenarios_fp fl64 fp_store 0)
     = Inr (1801439850948199 / 9007199254740992) \<and>
   np_sum fl64 [energy_5min_real_kWh (rows (frames fp_store 0) ! 0)]
     = 3602879701896397 / 18014398509481984 \<and>
   (1801439850948199 / 9007199254740992 :: real) \<noteq> 3602879701896397 / 18014398509481984"
proof -
  have 1: "is_business_hours (frames fp_store 0) = Some [0, 1]"
    by (simp add: fp_store_def fp_frame_def)
  from map_sum_fst [OF fp_compute, of s2_economia_kWh]
  have 2: "map_sum id (s2_economia_kWh \<circ> fst) (compute_scenarios_fp fl64 fp_store 0)
           = Inr (1801439850948199 / 9007199254740992)"
    by (simp add: fp_stats_def)
  have 3: "np_sum fl64 [energy_5min_real_kWh (rows (frames fp_store 0) ! 0)]
           = 3602879701896397 / 18014398509481984"
    by (simp add: fp_store_def fp_frame_def np_sum_def pairwise_sum_small fl64_ops)
  have 4: "(1801439850948199 / 9007199254740992 :: real) \<noteq> 3602879701896397 / 18014398509481984"
    by simp
  from 1 2 3 4 show ?thesis by blast
qed

section \<open>Aggregation\<close>




text \<open>
  Claim C4, as the code has it. When no reading has a negative baseline energy, the
  scenario energy of every row lies between 0 and the baseline energy of the row, in both
  scenarios, and in exact arithmetic no row of the two daily tables has negative savings.
  In float64, where the sums of a day are compensated sums, the savings of a day can come
  out negative by a rounding error.
\<close>

theorem monotonic_non_negativity:
  assumes "\<forall>x\<in>set (rows (frames h a)). 0 \<le> energy_5min_real_kWh x"
    and "is_business_hours (frames h a) = Some bh" and "frame_ok (frames h a)"
  shows "\<exists>s1 h1 col1 s2 h2 col2 r h'.
           cenario1 h a = (s1, h1) \<and> energy_s1_kWh (frames h1 s1) = Some col1 \<and>
           cenario2 h a = Inr (s2, h2) \<and> energy_s2_kWh (frames h2 s2) = Some col2 \<and>
           length col1 = length (rows (frames h a)) \<and>
           length col2 = length (rows (frames h a)) \<and>
           (\<forall>i<length (rows (frames h a)).
              0 \<le> col1 ! i \<and> col1 ! i \<le> energy_5min_real_kWh (rows (frames h a) ! i) \<and>
              0 \<le> col2 ! i \<and> col2 ! i \<le> energy_5min_real_kWh (rows (frames h a) ! i)) \<and>
           compute_scenarios_fp (\<lambda>x. x) h a = Inr (r, h') \<and>
           (\<forall>d\<in>set (s1_daily r). 0 \<le> economia_kWh d) \<and>
           (\<forall>d\<in>set (s2_daily r). 0 \<le> economia_kWh d)"
proof -
  let ?f = "frames h a" and ?rs = "rows (frames h a)"
  from assms have l: "length bh = length ?rs"
    by (simp add: frame_ok_def col_ok_def)
  have e: "0 \<le> energy_5min_real_kWh (?rs ! i)" if "i < length ?rs" for i
    using assms(1) that by simp
  let ?h1 = "h\<lparr>frames := (frames h)(fresh h := ?f\<lparr>energy_s1_kWh := Some (s1_energy ?rs)\<rparr>),
                fresh := Suc (fresh h)\<rparr>"
  let ?h2 = "h\<lparr>frames := (frames h)(fresh h := ?f\<lparr>energy_s2_kWh := Some (s2_energy ?rs bh)\<rparr>),
                fresh := Suc (fresh h)\<rparr>"
  have 1: "cenario1 h a = (fresh h, ?h1)"
    by (rule cenario1_eq)
  have 2: "energy_s1_kWh (frames ?h1 (fresh h)) = Some (s1_energy ?rs)"
    by simp
  have 3: "cenario2 h a = Inr (fresh h, ?h2)"
    by (rule cenario2_eq [OF assms(2) l])
  have 4: "energy_s2_kWh (frames ?h2 (fresh h)) = Some (s2_energy ?rs bh)"
    by simp
  have 5: "\<forall>i<length ?rs.
             0 \<le> s1_energy ?rs ! i \<and> s1_energy ?rs ! i \<le> energy_5min_real_kWh (?rs ! i) \<and>
             0 \<le> s2_energy ?rs bh ! i \<and> s2_energy ?rs bh ! i \<le> energy_5min_real_kWh (?rs ! i)"
    by (simp add: s1_energy_nth s2_energy_nth e)
  have 6: "compute_scenarios_fp (\<lambda>x. x) h a = Inr (stats_of ?f bh, final_store h a bh)"
    by (simp add: compute_scenarios_fp_exact compute_scenarios_eq [OF assms(2) l])
  have 7: "\<forall>d\<in>set (s1_daily (stats_of ?f bh)). 0 \<le> economia_kWh d"
    using 5 by (auto simp: stats_of_def Let_def intro: daily_agg_nonneg)
  have 8: "\<forall>d\<in>set (s2_daily (stats_of ?f bh)). 0 \<le> economia_kWh d"
    using 5 by (auto simp: stats_of_def Let_def intro: daily_agg_nonneg)
  from 1 2 3 4 5 6 7 8 length_s1_energy [of ?rs] length_s2_energy [of ?rs bh] show ?thesis
    by blast
qed

theorem monotonic_non_negativity_witness:
  "list_all (\<lambda>x. 0 \<le> energy_5min_real_kWh x) (rows (frames demo_store 0)) \<and>
   is_business_hours (frames demo_store 0) = Some [0, 1, 1] \<and> frame_ok (frames demo_store 0) \<and>
   compute_scenarios_fp (\<lambda>x. x) demo_store 0 = Inr (demo_stats, demo_final) \<and>
   list_all (\<lambda>d. 0 \<le> economia_kWh d) (s1_daily demo_stats) \<and>
   list_all (\<lambda>d. 0 \<le> economia_kWh d) (s2_daily demo_stats) \<and>
   (\<exists>col1 col2.
      energy_s1_kWh (frames demo_s1_store 1) = Some col1 \<and>
      energy_s2_kWh (frames demo_s2_store 1) = Some col2 \<and>
      list_all (\<lambda>i. 0 \<le> col1 ! i \<and> col1 ! i \<le> energy_5min_real_kWh (rows (frames demo_store 0) ! i) \<and>
                    0 \<le> col2 ! i \<and> col2 ! i \<le> energy_5min_real_kWh (rows (frames demo_store 0) ! i))
               [0..<length (rows (frames demo_store 0))])"
proof -
  have e: "\<forall>x\<in>set (rows (frames demo_store 0)). 0 \<le> energy_5min_real_kWh x"
    by (simp add: demo_store_def demo_frame_def)
  from monotonic_non_negativity [OF e demo_flags demo_frame_ok]
  show ?thesis
    using e demo_flags demo_frame_ok demo_compute_fp
    by (auto simp: demo_cenario1 demo_cenario2 list_all_iff)
qed

theorem monotonic_non_negativity_counterexample:
  "map energy_5min_real_kWh (rows (frames kahan_store 0))
     = [1 / 9007199254740992, 4503599627370497 / 4503599627370496,
        4503599627370497 / 2251799813685248] \<and>
   is_business_hours (frames kahan_store 0) = Some [0, 1, 1] \<and>
   map_sum id (map economia_kWh \<circ> s2_daily \<circ> fst) (compute_scenarios_fp fl64 kahan_store 0)
     = Inr [- (1 / 2251799813685248)]"
proof -
  have 1: "map energy_5min_real_kWh (rows (frames kahan_store 0))
           = [1 / 9007199254740992, 4503599627370497 / 4503599627370496,
              4503599627370497 / 2251799813685248]"
    and 2: "is_business_hours (frames kahan_store 0) = Some [0, 1, 1]"
    by (simp_all add: kahan_store_def kahan_frame_def)
  from map_sum_fst [OF kahan_compute, of "map economia_kWh \<circ> s2_daily"]
  have 3: "map_sum id (map economia_kWh \<circ> s2_daily \<circ> fst) (compute_scenarios_fp fl64 kahan_store 0)
           = Inr [- (1 / 2251799813685248)]"
    by (simp add: kahan_stats_def o_assoc)
  from 1 2 3 show ?thesis by blast
qed

text \<open>
  Claim C6. In the result of \<open>compute_scenarios\<close> the dates of each daily table are
  exactly the distinct dates of the input, each once; and a date on which no reading has
  \<open>on_off = 1\<close> has a row in the daily table of Scenario 1, with savings 0.
\<close>

theorem day_completeness:
  assumes "compute_scenarios h a = Inr (r, h')" and "frame_ok (frames h a)"
  shows "set (map day (s1_daily r)) = set (map date (rows (frames h a))) \<and>
         set (map day (s2_daily r)) = set (map date (rows (frames h a))) \<and>
         distinct (map day (s1_daily r)) \<and> distinct (map day (s2_daily r)) \<and>
         (\<forall>d\<in>set (map date (rows (frames h a))).
            (\<forall>x\<in>set (rows (frames h a)). date x = d \<longrightarrow> on_off x \<noteq> 1) \<longrightarrow>
            (\<exists>row\<in>set (s1_daily r). day row = d \<and> economia_kWh row = 0))"
proof -
  let ?f = "frames h a" and ?rs = "rows (frames h a)"
  from assms obtain bh where r: "r = stats_of ?f bh"
    by (rule compute_scenarios_Inr)
  have s1: "s1_daily r = daily_agg ?f (s1_energy ?rs)"
    and s2: "s2_daily r = daily_agg ?f (s2_energy ?rs bh)"
    by (simp_all add: r stats_of_def Let_def)
  have "\<exists>row\<in>set (daily_agg ?f (s1_energy ?rs)). day row = d \<and> economia_kWh row = 0"
    if d: "d \<in> set (map date ?rs)" and no: "\<forall>x\<in>set ?rs. date x = d \<longrightarrow> on_off x \<noteq> 1" for d
  proof -
    let ?idx = "filter (\<lambda>i. date (?rs ! i) = d) [0..<length ?rs]"
    have "map (\<lambda>i. s1_energy ?rs ! i) ?idx = map (\<lambda>i. energy_5min_real_kWh (?rs ! i)) ?idx"
      by (rule map_cong) (auto simp: s1_energy_no_on [OF no])
    then have "(\<Sum>i\<leftarrow>?idx. s1_energy ?rs ! i) = (\<Sum>i\<leftarrow>?idx. energy_5min_real_kWh (?rs ! i))"
      by (rule arg_cong)
    then have z: "(\<Sum>i\<leftarrow>?idx. energy_5min_real_kWh (?rs ! i)) - (\<Sum>i\<leftarrow>?idx. s1_energy ?rs ! i) = 0"
      by (simp only: diff_self)
    let ?row = "\<lparr>day = d,
                 energy_base_kWh = (\<Sum>i\<leftarrow>?idx. energy_5min_real_kWh (?rs ! i)),
                 energy_scenario_kWh = (\<Sum>i\<leftarrow>?idx. s1_energy ?rs ! i),
                 economia_kWh = (\<Sum>i\<leftarrow>?idx. energy_5min_real_kWh (?rs ! i))
                                - (\<Sum>i\<leftarrow>?idx. s1_energy ?rs ! i)\<rparr>"
    have "?row \<in> set (daily_agg ?f (s1_energy ?rs))"
      unfolding daily_agg_set using d by (intro image_eqI [where x = d]) (simp_all add: Let_def)
    moreover have "day ?row = d" by simp
    moreover have "economia_kWh ?row = 0" using z by simp
    ultimately show ?thesis by blast
  qed
  then show ?thesis
    by (simp add: s1 s2 daily_agg_day)
qed

theorem day_completeness_witness:
  "compute_scenarios demo_store 0 = Inr (demo_stats, demo_final) \<and> frame_ok (frames demo_store 0) \<and>
   set (map day (s1_daily demo_stats)) = {0, 1} \<and>
   set (map day (s2_daily demo_stats)) = {0, 1} \<and>
   filter (\<lambda>x. date x = 1 \<and> on_off x = 1) (rows (frames demo_store 0)) = [] \<and>
   (\<exists>row\<in>set (s1_daily demo_stats). day row = 1 \<and> economia_kWh row = 0)"
proof -
  have d: "set (map date (rows (frames demo_store 0))) = {0, 1}"
    by (auto simp: demo_store_def demo_frame_def)
  have no: "\<forall>x\<in>set (rows (frames demo_store 0)). date x = 1 \<longrightarrow> on_off x \<noteq> 1"
    by (simp add: demo_store_def demo_frame_def)
  have no': "filter (\<lambda>x. date x = 1 \<and> on_off x = 1) (rows (frames demo_store 0)) = []"
    by (simp add: demo_store_def demo_frame_def)
  from day_completeness [OF demo_compute demo_frame_ok]
  have 1: "set (map day (s1_daily demo_stats)) = {0, 1}"
    and 2: "set (map day (s2_daily demo_stats)) = {0, 1}"
    and 3: "\<forall>d\<in>{0, 1}.
              (\<forall>x\<in>set (rows (frames demo_store 0)). date x = d \<longrightarrow> on_off x \<noteq> 1) \<longrightarrow>
              (\<exists>row\<in>set (s1_daily demo_stats). day row = d \<and> economia_kWh row = 0)"
    unfolding d by blast+
  from 3 no have "\<exists>row\<in>set (s1_daily demo_stats). day row = 1 \<and> economia_kWh row = 0"
    by blast
  with 1 2 no' demo_compute demo_frame_ok show ?thesis
    by blast
qed

text \<open>
  Claim C7, as the code has it. \<open>compute_scenarios\<close> does not reject a table without rows.
  When the table has the column \<open>is_business_hours\<close>, the call returns: there are no day
  groups, both daily tables are empty, every total is 0, and the mean daily savings of
  both scenarios are undefined (\<open>NaN\<close>, here \<open>None\<close>). A caller that needs a defined mean
  has to check for an empty table itself.
\<close>

theorem empty_input_returns:
  assumes "rows (frames h a) = []" and "is_business_hours (frames h a) = Some bh"
    and "frame_ok (frames h a)"
  shows "groupby_date (frames h a) = [] \<and>
         map_sum id fst (compute_scenarios h a) =
           Inr \<lparr>total_base_kWh = 0,
                s1_total_kWh = 0, s1_economia_kWh = 0, s1_economia_media_dia = None, s1_daily = [],
                s2_total_kWh = 0, s2_economia_kWh = 0, s2_economia_media_dia = None, s2_daily = []\<rparr>"
proof -
  from assms have l: "length bh = length (rows (frames h a))"
    by (simp add: frame_ok_def col_ok_def)
  have g: "groupby_date (frames h a) = []"
    by (rule groupby_date_empty) (rule assms(1))
  have "stats_of (frames h a) bh =
          \<lparr>total_base_kWh = 0,
           s1_total_kWh = 0, s1_economia_kWh = 0, s1_economia_media_dia = None, s1_daily = [],
           s2_total_kWh = 0, s2_economia_kWh = 0, s2_economia_media_dia = None, s2_daily = []\<rparr>"
    by (simp add: stats_of_def Let_def assms(1) s1_energy_def s2_energy_def daily_agg_def g
                  series_mean_def)
  with g show ?thesis
    by (simp add: compute_scenarios_eq [OF assms(2) l])
qed

theorem empty_input_returns_witness:
  "rows (frames empty_store 0) = [] \<and> is_business_hours (frames empty_store 0) = Some [] \<and>
   frame_ok (frames empty_store 0) \<and> groupby_date (frames empty_store 0) = [] \<and>
   map_sum id fst (compute_scenarios empty_store 0) = Inr empty_stats"
proof -
  have 1: "rows (frames empty_store 0) = []"
    and 2: "is_business_hours (frames empty_store 0) = Some []"
    and 3: "frame_ok (frames empty_store 0)"
    by (simp_all add: empty_store_def empty_frame_def frame_ok_def col_ok_def)
  from empty_input_returns [OF 1 2 3] 1 2 3 show ?thesis
    by (simp add: empty_stats_def)
qed

theorem empty_input_counterexample:
  "map_sum id (s1_economia_media_dia \<circ> fst) (compute_scenarios empty_store 0) = Inr None \<and>
   map_sum id (s2_economia_media_dia \<circ> fst) (compute_scenarios empty_store 0) = Inr None \<and>
   map_sum id (s1_daily \<circ> fst) (compute_scenarios empty_store 0) = Inr []"
  by (simp add: empty_store_def empty_frame_def eval_defs)

section \<open>Percentage savings\<close>

text \<open>
  Claim C8. The percentage savings of lines 390 and 421 never raise. When the total
  baseline energy is 0 both percentages are 0; this is the case, for example, for the
  result of \<open>compute_scenarios\<close> on a table in which every reading has energy 0.
\<close>

theorem zero_baseline_guard:
  "s1_pct st \<noteq> Inl e \<and> s2_pct st \<noteq> Inl e \<and>
   (total_base_kWh st = 0 \<longrightarrow> s1_pct st = Inr 0 \<and> s2_pct st = Inr 0) \<and>
   (compute_scenarios h a = Inr (r, h') \<and> frame_ok (frames h a) \<and>
    (\<forall>x\<in>set (rows (frames h a)). energy_5min_real_kWh x = 0)
    \<longrightarrow> total_base_kWh r = 0 \<and> s1_pct r = Inr 0 \<and> s2_pct r = Inr 0)"
proof -
  have 1: "s1_pct st \<noteq> Inl e \<and> s2_pct st \<noteq> Inl e"
    by (simp add: s1_pct_def s2_pct_def truediv_def)
  have 2: "s1_pct x = Inr 0 \<and> s2_pct x = Inr 0" if "total_base_kWh x = 0" for x
    using that by (simp add: s1_pct_def s2_pct_def)
  have 3: "total_base_kWh r = 0"
    if c: "compute_scenarios h a = Inr (r, h')" and ok: "frame_ok (frames h a)"
      and z: "\<forall>x\<in>set (rows (frames h a)). energy_5min_real_kWh x = 0"
  proof -
    from c ok obtain bh where "r = stats_of (frames h a) bh"
      by (rule compute_scenarios_Inr)
    with z show ?thesis
      by (simp add: stats_of_total_base sum_list_zero)
  qed
  from 1 2 [of st] 2 [of r] 3 show ?thesis by blast
qed

theorem zero_baseline_guard_witness:
  "compute_scenarios zero_store 0 = Inr (zero_stats, zero_final) \<and> frame_ok (frames zero_store 0) \<and>
   map energy_5min_real_kWh (rows (frames zero_store 0)) = [0] \<and>
   total_base_kWh zero_stats = 0 \<and> s1_pct zero_stats = Inr 0 \<and> s2_pct zero_stats = Inr 0"
proof -
  have z: "\<forall>x\<in>set (rows (frames zero_store 0)). energy_5min_real_kWh x = 0"
    by (simp add: zero_store_def zero_frame_def)
  have z': "map energy_5min_real_kWh (rows (frames zero_store 0)) = [0]"
    by (simp add: zero_store_def zero_frame_def)
  from zero_baseline_guard [of zero_stats ZeroDivisionError zero_store 0 zero_stats zero_final]
    zero_compute zero_frame_ok z z'
  show ?thesis by blast
qed

section \<open>The loader\<close>

text \<open>
  Claim C9 at an input where the loader does not do what the claim and the comment on
  line 48 say: a file whose \<open>is_business_hours\<close> column holds the integer 2. The
  conversion of lines 49 and 50 returns without error and leaves the 2 in the column, a
  value that is neither 0 nor 1.
\<close>

theorem flag_coercion_keeps_2:
  "load_data_flags [''is_business_hours'' \<mapsto> IntCol [2]]
     = Inr [''is_business_hours'' \<mapsto> IntCol [2]] \<and>
   \<not> binary_column (IntCol [2])"
  by (simp add: load_data_flags_def coerce_flag_def wrap_int64_def)

section \<open>The input is left as it was\<close>

text \<open>
  Claim C10. \<open>compute_scenarios\<close> writes only to the copies it makes: after the call the
  object it was given, and every other object that existed before the call, holds the
  frame it held before.
\<close>

theorem input_not_mutated:
  assumes "compute_scenarios h a = Inr (r, h')" and "a < fresh h"
  shows "frames h' a = frames h a \<and> (\<forall>b<fresh h. frames h' b = frames h b)"
  using compute_scenarios_store [OF assms(1)] assms(2) by simp

theorem input_not_mutated_witness:
  "compute_scenarios demo_store 0 = Inr (demo_stats, demo_final) \<and> 0 < fresh demo_store \<and>
   frames demo_final 0 = demo_frame \<and> frames demo_store 0 = demo_frame"
proof -
  have f: "0 < fresh demo_store"
    by (simp add: demo_store_def)
  have "frames demo_store 0 = demo_frame"
    by (simp add: demo_store_def)
  with input_not_mutated [OF demo_compute f] demo_compute f show ?thesis
    by simp
qed

end
